theory Spec2Isabelle
  imports Main "HOL-Library.Word"
begin

section \<open>The PKCS#11 engine front end: URI parsing, PIN acquisition, session use\<close>

text \<open>
  A shallow embedding of \<^verbatim>\<open>src/e_pkcs11_eng.c\<close>. Pointers to C strings are
  \<open>string option\<close> (\<open>None\<close> is \<^verbatim>\<open>NULL\<close>); a \<open>string\<close> holds the bytes of the buffer
  before its terminator. Functions that return \<^verbatim>\<open>int\<close> return \<open>int\<close> here. The engine
  context is mutated in place by the C code; the model passes it along and returns it.
  Memory allocation is assumed to succeed, so the \<^verbatim>\<open>memerr\<close> exits are not modelled.
  A step whose behaviour the C standard leaves undefined (a read through \<^verbatim>\<open>NULL\<close>,
  an \<^verbatim>\<open>atoi\<close> result out of range) is an outcome of its own.
\<close>

subsection \<open>C strings and the libc functions used\<close>

definition NUL :: char where
  "NUL = CHR 0x00"

definition strlen :: "string \<Rightarrow> nat" where
  "strlen s = length (takeWhile (\<lambda>c. c \<noteq> NUL) s)"

text \<open>The part of a buffer that a C string function sees: the bytes before the first
  \<^verbatim>\<open>'\0'\<close>.\<close>

definition c_str :: "string \<Rightarrow> string" where
  "c_str s = take (strlen s) s"

text \<open>Reading \<^verbatim>\<open>s[i]\<close>: index \<open>length s\<close> holds the terminator. No loop below reads
  beyond the first terminator.\<close>

definition char_at :: "string \<Rightarrow> nat \<Rightarrow> char" where
  "char_at s i = (if i < length s then s ! i else NUL)"

text \<open>\<^verbatim>\<open>strncmp(a, b, n)\<close>: zero exactly when the first \<open>n\<close> characters of the two C
  strings agree. Only the comparison with zero is used by the engine, so every
  non-zero result is rendered as 1.\<close>

definition strncmp :: "string \<Rightarrow> string \<Rightarrow> nat \<Rightarrow> int" where
  "strncmp a b n = (if take n (c_str a) = take n (c_str b) then 0 else 1)"

definition isxdigit :: "char \<Rightarrow> bool" where
  "isxdigit c =
     (let n = (of_char c :: nat) in
      (48 \<le> n \<and> n \<le> 57) \<or> (97 \<le> n \<and> n \<le> 102) \<or> (65 \<le> n \<and> n \<le> 70))"

definition isdigit :: "char \<Rightarrow> bool" where
  "isdigit c = (let n = (of_char c :: nat) in 48 \<le> n \<and> n \<le> 57)"

definition isspace :: "char \<Rightarrow> bool" where
  "isspace c = (let n = (of_char c :: nat) in n = 32 \<or> (9 \<le> n \<and> n \<le> 13))"

definition OPENSSL_hexchar2int :: "char \<Rightarrow> int" where
  "OPENSSL_hexchar2int c =
     (let n = (of_char c :: int) in
      if 48 \<le> n \<and> n \<le> 57 then n - 48
      else if 97 \<le> n \<and> n \<le> 102 then n - 87
      else if 65 \<le> n \<and> n \<le> 70 then n - 55
      else - 1)"

text \<open>\<^verbatim>\<open>atoi\<close>, as the C standard gives it: white space is skipped, an optional sign is
  read, then decimal digits up to the first other character. A value that does not
  fit an \<^verbatim>\<open>int\<close> (32 bits) is undefined behaviour: \<open>None\<close>.\<close>

fun atoi_digits :: "int \<Rightarrow> string \<Rightarrow> int" where
  "atoi_digits acc [] = acc"
| "atoi_digits acc (c # cs) =
     (if isdigit c then atoi_digits (acc * 10 + (of_char c - 48)) cs else acc)"

definition atoi :: "string \<Rightarrow> int option" where
  "atoi s =
     (let t = dropWhile isspace (c_str s);
          v = (case t of
                 [] \<Rightarrow> 0
               | c # r \<Rightarrow>
                   if c = CHR ''-'' then - atoi_digits 0 r
                   else if c = CHR ''+'' then atoi_digits 0 r
                   else atoi_digits 0 t)
      in if - (2 ^ 31) \<le> v \<and> v < 2 ^ 31 then Some v else None)"

subsection \<open>The engine context and the collaborators\<close>

text \<open>The fields of \<^verbatim>\<open>PKCS11_CTX\<close> that \<^verbatim>\<open>e_pkcs11_eng.c\<close> reads or writes. The
  struct is declared in \<^verbatim>\<open>e_pkcs11.h\<close>; the fields are taken from their uses: pointers
  compared with \<^verbatim>\<open>NULL\<close>, and four arrays filled by a \<^verbatim>\<open>memcpy\<close> of 16 or 32 bytes.
  \<^verbatim>\<open>id\<close> is named \<open>ctx_id\<close> here. \<^verbatim>\<open>CK_SLOT_ID\<close> is an \<^verbatim>\<open>unsigned long\<close>, 64 bits wide on
  the LP64 targets of the engine.\<close>

record PKCS11_CTX =
  module_path :: "string option"
  pin :: "string option"
  pinlen :: nat
  ctx_id :: "string option"
  idlen :: nat
  label :: "string option"
  type :: "string option"
  slotid :: "64 word"
  model :: string
  serial :: string
  token :: string
  manufacturer :: string

text \<open>The calls that leave this file, in the order in which they are made.\<close>

datatype event =
    E_read_file string
  | E_prompt
  | E_initialize "string option"
  | E_finalize
  | E_get_slot
  | E_start_session
  | E_login nat
  | E_find_private_key nat "string option"
  | E_find_public_key nat "string option"
  | E_load_pkey nat nat
  | E_search_start nat
  | E_search_next_cert nat
  | E_search_next_object nat
  | E_close_operation nat
  | E_end_session nat

text \<open>The context together with the trace of the calls made so far.\<close>

record world = PKCS11_CTX +
  trace :: "event list"

definition call :: "event \<Rightarrow> world \<Rightarrow> world" where
  "call e w = w\<lparr>trace := trace w @ [e]\<rparr>"

definition ctx_of :: "world \<Rightarrow> PKCS11_CTX" where
  "ctx_of w =
     \<lparr>module_path = module_path w, pin = pin w, pinlen = pinlen w, ctx_id = ctx_id w,
      idlen = idlen w, label = label w, type = type w, slotid = slotid w,
      model = model w, serial = serial w, token = token w,
      manufacturer = manufacturer w\<rparr>"

text \<open>\<^verbatim>\<open>pkcs11_ctx_new\<close>: a zero-filled context, with an empty trace.\<close>

definition pkcs11_ctx_new :: world where
  "pkcs11_ctx_new =
     \<lparr>module_path = None, pin = None, pinlen = 0, ctx_id = None, idlen = 0,
      label = None, type = None, slotid = 0,
      model = replicate 16 NUL, serial = replicate 16 NUL,
      token = replicate 32 NUL, manufacturer = replicate 32 NUL, trace = []\<rparr>"

text \<open>A certificate as the engine looks at it: the issuer name and the result of
  \<^verbatim>\<open>X509_check_purpose(cert, X509_PURPOSE_SSL_CLIENT, 0)\<close>, which is 1 when the
  certificate may be used for client authentication, 0 when it may not, and -1 when
  the library fails on the certificate. A name stands for its canonical encoding.\<close>

record X509 =
  issuer_name :: string
  check_purpose_ssl_client :: int

type_synonym EVP_PKEY = nat

text \<open>What the surroundings answer. The token module (\<^verbatim>\<open>e_pkcs11.c\<close>), the user
  interface, the file system and the process environment are not part of this file:
  their answers are parameters. \<open>token_certs\<close> lists what successive calls of
  \<^verbatim>\<open>pkcs11_search_next_cert\<close> deliver (certificate and its id) before the call that
  reports the end of the enumeration.\<close>

record env =
  getenv_PKCS11_MODULE_PATH :: "string option"
  file_content :: "string \<Rightarrow> string option"
  ui_pin :: "string option"
  pkcs11_initialize :: "string option \<Rightarrow> nat"
  pkcs11_get_slot :: "PKCS11_CTX \<Rightarrow> int"
  pkcs11_start_session :: "PKCS11_CTX \<Rightarrow> nat option"
  pkcs11_login :: "nat \<Rightarrow> PKCS11_CTX \<Rightarrow> int"
  pkcs11_find_private_key :: "nat \<Rightarrow> PKCS11_CTX \<Rightarrow> nat"
  pkcs11_find_public_key :: "nat \<Rightarrow> PKCS11_CTX \<Rightarrow> nat"
  pkcs11_load_pkey :: "nat \<Rightarrow> PKCS11_CTX \<Rightarrow> nat \<Rightarrow> EVP_PKEY option"
  pkcs11_search_start :: "nat \<Rightarrow> PKCS11_CTX \<Rightarrow> int"
  token_certs :: "(X509 \<times> string) list"
  next_object_is_cert :: "X509 option"

text \<open>\<^verbatim>\<open>CKR_OK\<close> is 0 in PKCS#11; only equality with it is tested.\<close>

definition CKR_OK :: nat where
  "CKR_OK = 0"

text \<open>How a function of this file ends: it returns a value and leaves a world behind,
  or it runs into undefined behaviour.\<close>

datatype ('r, 's) outcome = Returns 'r 's | Undefined_behaviour

text \<open>How a block inside a function ends: control goes on, or jumps to the \<^verbatim>\<open>err\<close>
  label, or the behaviour is undefined.\<close>

datatype 's step = Next 's | Goto_err 's | Undefined

subsection \<open>\<^verbatim>\<open>urldecode\<close>\<close>

text \<open>The loop of \<^verbatim>\<open>urldecode\<close> over the characters of \<open>p\<close>; the empty list is the
  terminator. \<open>None\<close> is the \<^verbatim>\<open>return NULL\<close> at a \<^verbatim>\<open>%\<close> that two hexadecimal digits
  do not follow.\<close>

fun urldecode_loop :: "string \<Rightarrow> string option" where
  "urldecode_loop [] = Some []"
| "urldecode_loop (c # cs) =
     (if c \<noteq> CHR ''%'' then map_option ((#) c) (urldecode_loop cs)
      else (case cs of
              h # l # rest \<Rightarrow>
                if isxdigit h \<and> isxdigit l
                then map_option
                       ((#) (char_of (OPENSSL_hexchar2int h * 16 + OPENSSL_hexchar2int l)))
                       (urldecode_loop rest)
                else None
            | _ \<Rightarrow> None))"

definition urldecode :: "string \<Rightarrow> string option" where
  "urldecode p = urldecode_loop (c_str p)"

subsection \<open>\<^verbatim>\<open>pkcs11_pad\<close>\<close>

text \<open>The second loop of \<^verbatim>\<open>pkcs11_pad\<close>: copy until \<open>len\<close> or the terminator.\<close>

function pad_copy :: "string \<Rightarrow> nat \<Rightarrow> nat \<Rightarrow> string \<Rightarrow> string" where
  "pad_copy field len i ret =
     (if i < len
      then (if char_at field i = NUL then ret
            else pad_copy field len (Suc i) (ret[i := char_at field i]))
      else ret)"
  by pat_completeness auto
termination
  by (relation "measure (\<lambda>(field, len, i, ret). len - i)") auto

declare pad_copy.simps [simp del]

text \<open>The first loop fills the buffer with spaces. With \<open>field = NULL\<close> the first
  iteration of the second loop reads through the null pointer.\<close>

definition pkcs11_pad :: "string option \<Rightarrow> nat \<Rightarrow> string option" where
  "pkcs11_pad field len =
     (case field of
        None \<Rightarrow> (if len = 0 then Some [] else None)
      | Some f \<Rightarrow> Some (pad_copy f len 0 (replicate len CHR '' '')))"

subsection \<open>\<^verbatim>\<open>pin_from_file\<close> and \<^verbatim>\<open>pkcs11_get_console_pin\<close>\<close>

text \<open>\<^verbatim>\<open>BIO_gets(in, buf, size)\<close> on a file: what it stores in \<open>buf\<close> is the first line
  with its newline, at most \<open>size - 1\<close> characters; what it returns is the \<^verbatim>\<open>strlen\<close>
  of that.\<close>

definition BIO_gets :: "string \<Rightarrow> nat \<Rightarrow> string" where
  "BIO_gets content sz =
     take (sz - 1)
       (let l = takeWhile (\<lambda>c. c \<noteq> CHR 0x0A) content
        in if length l < length content then l @ [CHR 0x0A] else l)"

text \<open>\<open>file_content env filename = None\<close>: the file cannot be opened. The result is the
  string that starts at \<open>buf\<close>, cut at its first newline: a line that begins with the
  null character gives \<open>i = 0\<close> and no PIN.\<close>

definition pin_from_file :: "env \<Rightarrow> string \<Rightarrow> string option" where
  "pin_from_file env filename =
     (case file_content env filename of
        None \<Rightarrow> None
      | Some content \<Rightarrow>
          (let buf = BIO_gets content 255
           in if int (strlen buf) \<le> 0 then None
              else Some (takeWhile (\<lambda>c. c \<noteq> CHR 0x0A) (c_str buf))))"

text \<open>The prompt: every failure of the user interface ends in \<^verbatim>\<open>pass = NULL\<close>.\<close>

definition pkcs11_get_console_pin :: "env \<Rightarrow> world \<Rightarrow> string option \<times> world" where
  "pkcs11_get_console_pin env w = (ui_pin env, call E_prompt w)"

subsection \<open>\<^verbatim>\<open>pkcs11_ctrl\<close>\<close>



subsection \<open>\<^verbatim>\<open>pkcs11_parse_items\<close>\<close>

text \<open>The block under \<^verbatim>\<open>/* found */\<close>: one segment \<open>p\<close> of the URI, matched against the
  keys in the order of the \<^verbatim>\<open>else if\<close> chain. A segment that matches no branch
  changes nothing. Segments are cut out of \<open>c_str uri\<close>, so they hold no terminator
  and \<open>drop n p\<close> is the C string at \<open>p + n\<close>.\<close>

definition parse_item :: "env \<Rightarrow> world \<Rightarrow> string \<Rightarrow> world step" where
  "parse_item env w p =
     (if strncmp p ''pin-value='' 10 = 0 \<and> pin w = None then
        (let tmpstr = drop 10 p
         in Next (w\<lparr>pin := Some tmpstr, pinlen := strlen tmpstr\<rparr>))
      else if strncmp p ''pin-source='' 11 = 0 \<and> pin w = None then
        (let p1 = drop 11 p
         in if strncmp p1 ''file:'' 5 = 0 then
              (let tmpstr = drop 5 p1; w1 = call (E_read_file tmpstr) w
               in case pin_from_file env tmpstr of
                    None \<Rightarrow> Goto_err w1
                  | Some buf \<Rightarrow> Next (w1\<lparr>pin := Some buf, pinlen := strlen buf\<rparr>))
            else Goto_err w)
      else if strncmp p ''object='' 7 = 0 \<and> label w = None then
        Next (w\<lparr>label := urldecode (drop 7 p)\<rparr>)
      else if strncmp p ''model='' 6 = 0 then
        (case pkcs11_pad (urldecode (drop 6 p)) 16 of
           None \<Rightarrow> Undefined
         | Some b \<Rightarrow> Next (w\<lparr>model := b\<rparr>))
      else if strncmp p ''serial='' 7 = 0 then
        (case pkcs11_pad (urldecode (drop 7 p)) 16 of
           None \<Rightarrow> Undefined
         | Some b \<Rightarrow> Next (w\<lparr>serial := b\<rparr>))
      else if strncmp p ''token='' 6 = 0 then
        (case pkcs11_pad (urldecode (drop 6 p)) 32 of
           None \<Rightarrow> Undefined
         | Some b \<Rightarrow> Next (w\<lparr>token := b\<rparr>))
      else if strncmp p ''manufacturer='' 13 = 0 then
        (case pkcs11_pad (urldecode (drop 13 p)) 32 of
           None \<Rightarrow> Undefined
         | Some b \<Rightarrow> Next (w\<lparr>manufacturer := b\<rparr>))
      else if strncmp p ''id='' 3 = 0 \<and> ctx_id w = None then
        (case urldecode (drop 3 p) of
           None \<Rightarrow> Undefined
         | Some d \<Rightarrow> Next (w\<lparr>ctx_id := Some d, idlen := strlen d\<rparr>))
      else if strncmp p ''type='' 5 = 0 \<and> type w = None then
        Next (w\<lparr>type := Some (drop 5 p)\<rparr>)
      else if strncmp p ''module-path='' 12 = 0 \<and> module_path w = None then
        Next (w\<lparr>module_path := urldecode (drop 12 p)\<rparr>)
      else if strncmp p ''slot-id='' 8 = 0 \<and> slotid w = 0 then
        (case atoi (drop 8 p) of
           None \<Rightarrow> Undefined
         | Some n \<Rightarrow> Next (w\<lparr>slotid := word_of_int n\<rparr>))
      else Next w)"

text \<open>The \<^verbatim>\<open>while\<close> loop: \<open>seg\<close> is the text between \<open>p\<close> and \<open>q\<close>, the last argument
  the text from \<open>q\<close> on, the empty list being the terminator at \<open>uri + len\<close>.\<close>

fun parse_scan :: "env \<Rightarrow> world \<Rightarrow> string \<Rightarrow> string \<Rightarrow> (int, world) outcome" where
  "parse_scan env w seg [] =
     (if seg \<noteq> [] then
        (case parse_item env w seg of
           Next w' \<Rightarrow> Returns 1 w'
         | Goto_err w' \<Rightarrow> Returns 0 w'
         | Undefined \<Rightarrow> Undefined_behaviour)
      else Returns 1 w)"
| "parse_scan env w seg (c # cs) =
     (if c \<noteq> CHR '';'' then parse_scan env w (seg @ [c]) cs
      else if seg \<noteq> [] then
        (case parse_item env w seg of
           Next w' \<Rightarrow> parse_scan env w' [] cs
         | Goto_err w' \<Rightarrow> Returns 0 w'
         | Undefined \<Rightarrow> Undefined_behaviour)
      else parse_scan env w [] cs)"

definition pkcs11_parse_items :: "env \<Rightarrow> world \<Rightarrow> string \<Rightarrow> bool \<Rightarrow> (int, world) outcome" where
  "pkcs11_parse_items env w uri store = parse_scan env w [] (c_str uri)"

subsection \<open>\<^verbatim>\<open>pkcs11_parse\<close>\<close>

text \<open>The first block: the URI form or the bare identifier. In the second form
  \<^verbatim>\<open>strlen\<close> is applied to the result of \<^verbatim>\<open>urldecode\<close> unchecked.\<close>

definition parse_path :: "env \<Rightarrow> world \<Rightarrow> string \<Rightarrow> bool \<Rightarrow> world step" where
  "parse_path env w path store =
     (if strncmp path ''pkcs11:'' 7 = 0 then
        (case pkcs11_parse_items env w (drop 7 (c_str path)) store of
           Undefined_behaviour \<Rightarrow> Undefined
         | Returns r w1 \<Rightarrow>
             if r = 0 then Goto_err w1
             else if ctx_id w1 = None \<and> label w1 = None \<and> \<not> store then Goto_err w1
             else Next w1)
      else
        (case urldecode path of
           None \<Rightarrow> Undefined
         | Some d \<Rightarrow> Next (w\<lparr>ctx_id := Some d, idlen := strlen d\<rparr>)))"

text \<open>The second block: the module path, from the environment when the context has
  none.\<close>

definition parse_module_path :: "env \<Rightarrow> world \<Rightarrow> world step" where
  "parse_module_path env w =
     (if module_path w = None then
        (case getenv_PKCS11_MODULE_PATH env of
           None \<Rightarrow> Goto_err w
         | Some mp \<Rightarrow> Next (w\<lparr>module_path := Some mp\<rparr>))
      else Next w)"

text \<open>The third block: the prompt.\<close>

definition parse_pin :: "env \<Rightarrow> world \<Rightarrow> bool \<Rightarrow> (int, world) outcome" where
  "parse_pin env w store =
     (if pin w = None \<and>
         (\<not> store \<or> (store \<and> type w \<noteq> None \<and> strncmp (the (type w)) ''private'' 7 = 0))
      then
        (case pkcs11_get_console_pin env w of
           (None, w1) \<Rightarrow> Returns 0 w1
         | (Some p, w1) \<Rightarrow> Returns 1 (w1\<lparr>pin := Some p, pinlen := strlen p\<rparr>))
      else Returns 1 w)"

definition pkcs11_parse :: "env \<Rightarrow> world \<Rightarrow> string option \<Rightarrow> bool \<Rightarrow> (int, world) outcome" where
  "pkcs11_parse env w path store =
     (case path of
        None \<Rightarrow> Returns 0 w
      | Some path' \<Rightarrow>
          (case parse_path env w path' store of
             Undefined \<Rightarrow> Undefined_behaviour
           | Goto_err w1 \<Rightarrow> Returns 0 w1
           | Next w1 \<Rightarrow>
               (case parse_module_path env w1 of
                  Undefined \<Rightarrow> Undefined_behaviour
                | Goto_err w2 \<Rightarrow> Returns 0 w2
                | Next w2 \<Rightarrow> parse_pin env w2 store)))"

subsection \<open>\<^verbatim>\<open>cert_issuer_match\<close>\<close>

text \<open>\<^verbatim>\<open>X509_NAME_cmp\<close> compares the canonical encodings of two names; the engine only
  tests the result against zero.\<close>

definition X509_NAME_cmp :: "string \<Rightarrow> string \<Rightarrow> int" where
  "X509_NAME_cmp a b = (if a = b then 0 else 1)"

function issuer_loop :: "string list \<Rightarrow> X509 \<Rightarrow> nat \<Rightarrow> int" where
  "issuer_loop ca_dn x i =
     (if i < length ca_dn
      then (if X509_NAME_cmp (ca_dn ! i) (issuer_name x) = 0 then 1
            else issuer_loop ca_dn x (Suc i))
      else 0)"
  by pat_completeness auto
termination
  by (relation "measure (\<lambda>(ca_dn, x, i). length ca_dn - i)") auto

declare issuer_loop.simps [simp del]

definition cert_issuer_match :: "string list \<Rightarrow> X509 \<Rightarrow> int" where
  "cert_issuer_match ca_dn x =
     (if int (length ca_dn) \<le> 0 then 1 else issuer_loop ca_dn x 0)"

subsection \<open>The operations offered to the host library\<close>

text \<open>Each collaborator call adds its event to the trace before its answer is looked
  at. The session handle of a successful \<^verbatim>\<open>pkcs11_start_session\<close> is \<open>session\<close>. The
  engine context is taken to exist (\<^verbatim>\<open>ENGINE_get_ex_data\<close> does not return
  \<^verbatim>\<open>NULL\<close>).\<close>

definition pkcs11_engine_load_private_key ::
  "env \<Rightarrow> world \<Rightarrow> string option \<Rightarrow> (EVP_PKEY option, world) outcome" where
  "pkcs11_engine_load_private_key env w path =
     (case pkcs11_parse env w path False of
        Undefined_behaviour \<Rightarrow> Undefined_behaviour
      | Returns r w1 \<Rightarrow>
          if r = 0 then Returns None w1
          else
            (let w2 = call (E_initialize (module_path w1)) w1
             in if pkcs11_initialize env (module_path w1) \<noteq> CKR_OK then Returns None w2
                else
                  (let w3 = call E_get_slot w2
                   in if pkcs11_get_slot env (ctx_of w3) = 0 then Returns None w3
                      else
                        (let w4 = call E_start_session w3
                         in case pkcs11_start_session env (ctx_of w4) of
                              None \<Rightarrow> Returns None w4
                            | Some session \<Rightarrow>
                                (let w5 = call (E_login session) w4
                                 in if pkcs11_login env session (ctx_of w5) = 0
                                    then Returns None w5
                                    else
                                      (let w6 = call (E_find_private_key session (ctx_id w5)) w5;
                                           key = pkcs11_find_private_key env session (ctx_of w6)
                                       in if key = 0 then Returns None w6
                                          else Returns (pkcs11_load_pkey env session (ctx_of w6) key)
                                                 (call (E_load_pkey session key) w6)))))))"

definition pkcs11_engine_load_public_key ::
  "env \<Rightarrow> world \<Rightarrow> string option \<Rightarrow> (EVP_PKEY option, world) outcome" where
  "pkcs11_engine_load_public_key env w path =
     (case pkcs11_parse env w path False of
        Undefined_behaviour \<Rightarrow> Undefined_behaviour
      | Returns r w1 \<Rightarrow>
          if r = 0 then Returns None w1
          else
            (let w2 = call (E_initialize (module_path w1)) w1
             in if pkcs11_initialize env (module_path w1) \<noteq> CKR_OK then Returns None w2
                else
                  (let w3 = call E_get_slot w2
                   in if pkcs11_get_slot env (ctx_of w3) = 0 then Returns None w3
                      else
                        (let w4 = call E_start_session w3
                         in case pkcs11_start_session env (ctx_of w4) of
                              None \<Rightarrow> Returns None w4
                            | Some session \<Rightarrow>
                                (let w5 = call (E_login session) w4
                                 in if pkcs11_login env session (ctx_of w5) = 0
                                    then Returns None w5
                                    else
                                      (let w6 = call (E_find_public_key session (ctx_id w5)) w5;
                                           key = pkcs11_find_public_key env session (ctx_of w6)
                                       in if key = 0 then Returns None w6
                                          else Returns (pkcs11_load_pkey env session (ctx_of w6) key)
                                                 (call (E_load_pkey session key) w6)))))))"

text \<open>\<^verbatim>\<open>pkcs11_engine_load_cert\<close>: the result is \<open>ret\<close> and \<^verbatim>\<open>params->cert\<close>. Its \<^verbatim>\<open>end\<close>
  label ends the session and finalizes the module; with no session opened the
  handle passed is still 0.\<close>

definition pkcs11_engine_load_cert ::
  "env \<Rightarrow> world \<Rightarrow> string option \<Rightarrow> (int \<times> X509 option, world) outcome" where
  "pkcs11_engine_load_cert env w uri_string =
     (case pkcs11_parse env w uri_string True of
        Undefined_behaviour \<Rightarrow> Undefined_behaviour
      | Returns r w1 \<Rightarrow>
          if r = 0 then Returns (0, None) w1
          else
            (let w2 = call (E_initialize (module_path w1)) w1
             in if pkcs11_initialize env (module_path w1) \<noteq> CKR_OK then Returns (0, None) w2
                else
                  (let w3 = call E_get_slot w2
                   in if pkcs11_get_slot env (ctx_of w3) = 0
                      then Returns (0, None) (call E_finalize w3)
                      else
                        (let w4 = call E_start_session w3
                         in case pkcs11_start_session env (ctx_of w4) of
                              None \<Rightarrow>
                                Returns (0, None) (call E_finalize (call (E_end_session 0) w4))
                            | Some session \<Rightarrow>
                                (let w5 = call (E_search_start session) (w4\<lparr>type := Some ''cert''\<rparr>)
                                 in if pkcs11_search_start env session (ctx_of w5) = 0
                                    then Returns (0, None)
                                           (call E_finalize (call (E_end_session session) w5))
                                    else
                                      (let w6 = call (E_search_next_object session) w5
                                       in Returns
                                            (case next_object_is_cert env of
                                               None \<Rightarrow> (0, None)
                                             | Some cert \<Rightarrow> (1, Some cert))
                                            (call E_finalize
                                               (call (E_end_session session) w6))))))))"

text \<open>\<^verbatim>\<open>pkcs11_load_ssl_client_cert\<close>: what it hands back is \<open>ret\<close>, \<^verbatim>\<open>*pcert\<close> and
  \<^verbatim>\<open>*pkey\<close>.\<close>

record client_cert_result =
  ret :: int
  pcert :: "X509 option"
  pkey :: "EVP_PKEY option"

text \<open>The \<^verbatim>\<open>for (i = 0;; i++)\<close> loop over what \<^verbatim>\<open>pkcs11_search_next_cert\<close> delivers; the
  empty list is the call that reports the end.\<close>

fun client_cert_loop ::
  "env \<Rightarrow> nat \<Rightarrow> string list \<Rightarrow> world \<Rightarrow> (X509 \<times> string) list \<Rightarrow>
   (client_cert_result, world) outcome" where
  "client_cert_loop env session ca_dn w [] =
     Returns \<lparr>ret = 0, pcert = None, pkey = None\<rparr> (call (E_search_next_cert session) w)"
| "client_cert_loop env session ca_dn w ((cert, cid) # rest) =
     (let w1 = call (E_search_next_cert session) w
      in if cert_issuer_match ca_dn cert \<noteq> 0 \<and> check_purpose_ssl_client cert \<noteq> 0
         then
           (let w2 = call (E_close_operation session)
                       (w1\<lparr>ctx_id := Some cid, idlen := length cid\<rparr>);
                w3 = call (E_find_private_key session (ctx_id w2)) w2;
                key = pkcs11_find_private_key env session (ctx_of w3)
            in if key = 0 then Returns \<lparr>ret = 0, pcert = Some cert, pkey = None\<rparr> w3
               else Returns
                      \<lparr>ret = 1, pcert = Some cert,
                       pkey = pkcs11_load_pkey env session (ctx_of w3) key\<rparr>
                      (call (E_load_pkey session key) w3))
         else client_cert_loop env session ca_dn w1 rest)"

definition pkcs11_load_ssl_client_cert ::
  "env \<Rightarrow> world \<Rightarrow> string list \<Rightarrow> (client_cert_result, world) outcome" where
  "pkcs11_load_ssl_client_cert env w ca_dn =
     (let failed = \<lparr>ret = 0, pcert = None, pkey = None\<rparr>;
          w1 = call (E_initialize (module_path w)) w
      in if pkcs11_initialize env (module_path w) \<noteq> CKR_OK then Returns failed w1
         else
           (let w2 = call E_get_slot w1
            in if pkcs11_get_slot env (ctx_of w2) = 0 then Returns failed (call E_finalize w2)
               else
                 (let w3 = call E_start_session w2
                  in case pkcs11_start_session env (ctx_of w3) of
                       None \<Rightarrow> Returns failed w3
                     | Some session \<Rightarrow>
                         (case (if pin w3 = None
                                then (case pkcs11_get_console_pin env w3 of
                                        (None, w4) \<Rightarrow> Goto_err w4
                                      | (Some p, w4) \<Rightarrow>
                                          Next (w4\<lparr>pin := Some p, pinlen := strlen p\<rparr>))
                                else Next w3) of
                            Undefined \<Rightarrow> Undefined_behaviour
                          | Goto_err w4 \<Rightarrow> Returns failed w4
                          | Next w4 \<Rightarrow>
                              (let w5 = call (E_search_start session)
                                          (w4\<lparr>type := Some ''cert''\<rparr>)
                               in if pkcs11_search_start env session (ctx_of w5) = 0
                                  then Returns failed w5
                                  else client_cert_loop env session ca_dn w5
                                         (token_certs env))))))"

subsection \<open>A sample environment\<close>

text \<open>One environment for the concrete runs below: a module path in the process
  environment, one readable PIN file, a user interface that answers, and a token
  module on which every call succeeds except the login.\<close>

definition sample_env :: env where
  "sample_env =
     \<lparr>getenv_PKCS11_MODULE_PATH = Some ''/usr/lib/softhsm.so'',
      file_content = (\<lambda>f. if f = ''/etc/pin'' then Some (''4321'' @ [CHR 0x0A] @ ''rest'') else None),
      ui_pin = Some ''0000'',
      pkcs11_initialize = (\<lambda>_. 0),
      pkcs11_get_slot = (\<lambda>_. 1),
      pkcs11_start_session = (\<lambda>_. Some 7),
      pkcs11_login = (\<lambda>_ _. 0),
      pkcs11_find_private_key = (\<lambda>_ _. 5),
      pkcs11_find_public_key = (\<lambda>_ _. 6),
      pkcs11_load_pkey = (\<lambda>_ _ k. Some k),
      pkcs11_search_start = (\<lambda>_ _. 1),
      token_certs = [],
      next_object_is_cert = None\<rparr>"

text \<open>Four certificates on the token, and a context that holds a module path and a
  PIN.\<close>

definition sample_certs :: "(X509 \<times> string) list" where
  "sample_certs =
     [(\<lparr>issuer_name = ''CN=Other CA'', check_purpose_ssl_client = 1\<rparr>, ''01''),
      (\<lparr>issuer_name = ''CN=Site CA'', check_purpose_ssl_client = 0\<rparr>, ''02''),
      (\<lparr>issuer_name = ''CN=Site CA'', check_purpose_ssl_client = 1\<rparr>, ''03''),
      (\<lparr>issuer_name = ''CN=Site CA'', check_purpose_ssl_client = 1\<rparr>, ''04'')]"

definition sample_ctx :: world where
  "sample_ctx = pkcs11_ctx_new\<lparr>module_path := Some ''/usr/lib/softhsm.so'',
                                pin := Some ''1234'', pinlen := 4\<rparr>"

section \<open>Properties\<close>

subsection \<open>C strings and padding\<close>

lemma strlen_le: "strlen s \<le> length s"
  by (simp add: strlen_def length_takeWhile_le)

lemma char_at_before_strlen: "j < strlen s \<Longrightarrow> char_at s j = s ! j \<and> s ! j \<noteq> NUL"
proof -
  assume j: "j < strlen s"
  then have "j < length s" using strlen_le [of s] by simp
  moreover have "s ! j \<noteq> NUL"
    using j nth_mem [of j "takeWhile (\<lambda>c. c \<noteq> NUL) s"] takeWhile_nth [of j "\<lambda>c. c \<noteq> NUL" s]
    by (auto simp: strlen_def dest: set_takeWhileD)
  ultimately show ?thesis by (simp add: char_at_def)
qed

lemma char_at_strlen: "char_at s (strlen s) = NUL"
  using nth_length_takeWhile [of "\<lambda>c. c \<noteq> NUL" s]
  by (auto simp: char_at_def strlen_def)

lemma strlen_no_NUL: "NUL \<notin> set s \<Longrightarrow> strlen s = length s"
  by (induction s) (auto simp: strlen_def)

lemma c_str_no_NUL: "NUL \<notin> set s \<Longrightarrow> c_str s = s"
  by (simp add: c_str_def strlen_no_NUL)

lemma pad_copy_length: "length (pad_copy f len i r) = length r"
  by (induction f len i r rule: pad_copy.induct) (subst pad_copy.simps, simp)

lemma pad_copy_nth:
  "i \<le> strlen f \<Longrightarrow> length r = len \<Longrightarrow> j < len \<Longrightarrow>
   pad_copy f len i r ! j = (if i \<le> j \<and> j < strlen f then f ! j else r ! j)"
proof (induction f len i r rule: pad_copy.induct)
  case (1 field len i r)
  show ?case
  proof (cases "i < len")
    case False
    with 1 show ?thesis by (subst pad_copy.simps) simp
  next
    case True
    show ?thesis
    proof (cases "char_at field i = NUL")
      case stop: True
      have "i = strlen field"
        using stop "1.prems"(1) char_at_before_strlen [of i field] by (cases "i < strlen field") auto
      with True stop show ?thesis by (subst pad_copy.simps) auto
    next
      case go: False
      have lt: "i < strlen field"
        using go "1.prems"(1) char_at_strlen [of field] by (cases "i = strlen field") auto
      have ch: "char_at field i = field ! i"
        using char_at_before_strlen [OF lt] by simp
      have "pad_copy field len i r ! j = pad_copy field len (Suc i) (r[i := char_at field i]) ! j"
        using True go by (subst pad_copy.simps) simp
      also have "\<dots> = (if Suc i \<le> j \<and> j < strlen field then field ! j else r[i := char_at field i] ! j)"
        using "1.IH" [OF True go] lt "1.prems" by simp
      finally show ?thesis
        using lt ch "1.prems" True by (auto simp: nth_list_update)
    qed
  qed
qed

lemma pkcs11_pad_c_str:
  "pkcs11_pad (Some s) w = Some (take w (c_str s) @ replicate (w - strlen s) CHR '' '')"
proof -
  have "pad_copy s w 0 (replicate w CHR '' '') = take w (c_str s) @ replicate (w - strlen s) CHR '' ''"
  proof (rule nth_equalityI)
    show "length (pad_copy s w 0 (replicate w CHR '' '')) = length (take w (c_str s) @ replicate (w - strlen s) CHR '' '')"
      using strlen_le [of s] by (simp add: pad_copy_length c_str_def)
  next
    fix j assume "j < length (pad_copy s w 0 (replicate w CHR '' ''))"
    then have j: "j < w" by (simp add: pad_copy_length)
    then show "pad_copy s w 0 (replicate w CHR '' '') ! j = (take w (c_str s) @ replicate (w - strlen s) CHR '' '') ! j"
      using strlen_le [of s]
      by (simp add: pad_copy_nth c_str_def nth_append)
  qed
  then show ?thesis by (simp add: pkcs11_pad_def)
qed

text \<open>
  Claim C10. For a C string \<open>s\<close> (no terminator inside) and a field width \<open>w\<close>,
  \<^verbatim>\<open>pkcs11_pad\<close> returns a buffer of exactly \<open>w\<close> bytes: the first \<open>min (length s) w\<close>
  bytes of \<open>s\<close>, then spaces. An input longer than the width is cut to its first \<open>w\<close>
  bytes, so it pads to the same buffer as any \<open>w\<close>-byte descriptor \<open>d\<close> that shares
  those bytes.
\<close>

theorem pkcs11_pad_fixed_width:
  assumes "NUL \<notin> set s"
  shows "pkcs11_pad (Some s) w =
           Some (take (min (length s) w) s @ replicate (w - min (length s) w) CHR '' '')
         \<and> length (the (pkcs11_pad (Some s) w)) = w
         \<and> (\<forall>d. w \<le> length s \<and> length d = w \<and> take w d = take w s
                \<longrightarrow> pkcs11_pad (Some s) w = Some d)"
  using assms by (auto simp: pkcs11_pad_c_str c_str_no_NUL strlen_no_NUL min_def)

theorem pkcs11_pad_fixed_width_witness:
  "NUL \<notin> set ''0123456789abcdefXYZ''
   \<and> pkcs11_pad (Some ''0123456789abcdefXYZ'') 16 = Some ''0123456789abcdef''
   \<and> pkcs11_pad (Some ''ABC'') 16 = Some ''ABC             ''"
proof -
  have n1: "NUL \<notin> set ''0123456789abcdefXYZ''" by (simp add: NUL_def)
  have n2: "NUL \<notin> set ''ABC''" by (simp add: NUL_def)
  show ?thesis
    using n1 pkcs11_pad_fixed_width [OF n1, of 16] pkcs11_pad_fixed_width [OF n2, of 16]
    by (simp add: numeral_eq_Suc)
qed

subsection \<open>The scan over the segments\<close>

lemma strncmp_no_NUL:
  "NUL \<notin> set a \<Longrightarrow> NUL \<notin> set b \<Longrightarrow> strncmp a b n = (if take n a = take n b then 0 else 1)"
  by (simp add: strncmp_def c_str_no_NUL)

lemma c_str_append:
  "c_str (a @ b) = (if NUL \<in> set a then c_str a else a @ c_str b)"
  by (induction a) (auto simp: c_str_def strlen_def)

lemma parse_scan_segment:
  "CHR '';'' \<notin> set s \<Longrightarrow> parse_scan env w seg s = parse_scan env w (seg @ s) []"
  by (induction s arbitrary: seg) auto

lemma parse_scan_append:
  "parse_scan env w seg (a @ CHR '';'' # b) =
     (case parse_scan env w seg a of
        Returns r w1 \<Rightarrow> if r = 1 then parse_scan env w1 [] b else Returns r w1
      | Undefined_behaviour \<Rightarrow> Undefined_behaviour)"
  by (induction a arbitrary: w seg) (auto split: step.splits)

lemma parse_scan_invariant:
  assumes stepN: "\<And>w p w'. P w \<Longrightarrow> parse_item env w p = Next w' \<Longrightarrow> P w'"
    and stepE: "\<And>w p w'. P w \<Longrightarrow> parse_item env w p = Goto_err w' \<Longrightarrow> P w'"
    and "P w" and "parse_scan env w seg s = Returns r w'"
  shows "P w'"
  using assms(3,4)
proof (induction s arbitrary: w seg)
  case Nil
  then show ?case
    by (auto split: step.splits if_splits intro: stepN stepE)
next
  case (Cons c s)
  show ?case
  proof (cases "c \<noteq> CHR '';''")
    case True
    with Cons.prems show ?thesis by (auto intro: Cons.IH)
  next
    case sep: False
    show ?thesis
    proof (cases "seg = []")
      case True
      with sep Cons.prems show ?thesis by (auto intro: Cons.IH)
    next
      case False
      with sep Cons.prems show ?thesis
        by (cases "parse_item env w seg") (auto intro: Cons.IH stepN stepE)
    qed
  qed
qed

lemma if_chain12:
  "(if b1 then x1 else if b2 then x2 else if b3 then x3 else if b4 then x4 else if b5 then x5
    else if b6 then x6 else if b7 then x7 else if b8 then x8 else if b9 then x9
    else if b10 then x10 else if b11 then x11 else x12) = r \<Longrightarrow>
   (b1 \<and> r = x1) \<or> (b2 \<and> r = x2) \<or> (b3 \<and> r = x3) \<or> (b4 \<and> r = x4) \<or> (b5 \<and> r = x5)
   \<or> (b6 \<and> r = x6) \<or> (b7 \<and> r = x7) \<or> (b8 \<and> r = x8) \<or> (b9 \<and> r = x9)
   \<or> (b10 \<and> r = x10) \<or> (b11 \<and> r = x11) \<or> r = x12"
  by (simp split: if_splits)










lemma parse_items_append:
  "NUL \<notin> set a \<Longrightarrow>
   pkcs11_parse_items env w (a @ CHR '';'' # b) store =
     (case pkcs11_parse_items env w a store of
        Returns r w1 \<Rightarrow> if r = 1 then pkcs11_parse_items env w1 b store else Returns r w1
      | Undefined_behaviour \<Rightarrow> Undefined_behaviour)"
proof -
  assume a: "NUL \<notin> set a"
  have "c_str (a @ CHR '';'' # b) = a @ CHR '';'' # c_str b"
    using a c_str_append [of a "CHR '';'' # b"] c_str_append [of "[CHR '';'']" b]
    by (simp add: NUL_def)
  then show ?thesis
    using a by (simp add: pkcs11_parse_items_def parse_scan_append c_str_no_NUL split: outcome.split)
qed

lemma parse_items_single:
  "NUL \<notin> set s \<Longrightarrow> CHR '';'' \<notin> set s \<Longrightarrow> s \<noteq> [] \<Longrightarrow>
   pkcs11_parse_items env w s store =
     (case parse_item env w s of
        Next w' \<Rightarrow> Returns 1 w'
      | Goto_err w' \<Rightarrow> Returns 0 w'
      | Undefined \<Rightarrow> Undefined_behaviour)"
  by (simp add: pkcs11_parse_items_def c_str_no_NUL parse_scan_segment)






lemma parse_items_last:
  assumes "NUL \<notin> set a" "NUL \<notin> set s" "CHR '';'' \<notin> set s" "s \<noteq> []"
    and "pkcs11_parse_items env w (a @ CHR '';'' # s) store = Returns 1 w'"
  shows "\<exists>w1. pkcs11_parse_items env w a store = Returns 1 w1 \<and> parse_item env w1 s = Next w'"
  using assms(5)
  by (auto simp: parse_items_append [OF assms(1)] parse_items_single [OF assms(2-4)]
           split: outcome.splits if_splits step.splits)














subsection \<open>Duplicate attributes\<close>




lemma parse_item_id:
  "NUL \<notin> set v \<Longrightarrow> ctx_id w = None \<Longrightarrow>
   parse_item env w (''id='' @ v) =
     (case urldecode v of None \<Rightarrow> Undefined
      | Some d \<Rightarrow> Next (w\<lparr>ctx_id := Some d, idlen := strlen d\<rparr>))"
  by (simp add: parse_item_def strncmp_no_NUL NUL_def)

lemma parse_item_object:
  "NUL \<notin> set v \<Longrightarrow> label w = None \<Longrightarrow>
   parse_item env w (''object='' @ v) = Next (w\<lparr>label := urldecode v\<rparr>)"
  by (simp add: parse_item_def strncmp_no_NUL NUL_def)




























subsection \<open>Which secret is used\<close>


lemma example_source_null_line:
  "pin_from_file (sample_env\<lparr>file_content := (\<lambda>f. Some (NUL # ''4321''))\<rparr>) ''/etc/pin'' = None
   \<and> pin_from_file (sample_env\<lparr>file_content := (\<lambda>f. Some (''43'' @ NUL # ''21''))\<rparr>) ''/etc/pin''
       = Some ''43''"
  by code_simp






subsection \<open>The slot id\<close>





subsection \<open>\<^verbatim>\<open>pkcs11_parse\<close>: selector, module path and prompt\<close>

lemma c_str_idem: "c_str (c_str s) = c_str s"
  by (induction s) (auto simp: c_str_def strlen_def)

lemma c_str_scheme: "c_str (''pkcs11:'' @ rest) = ''pkcs11:'' @ c_str rest"
  using c_str_append [of "''pkcs11:''" rest] by (simp add: NUL_def)

lemma parse_path_uri:
  "parse_path env w (''pkcs11:'' @ rest) store =
     (case pkcs11_parse_items env w rest store of
        Undefined_behaviour \<Rightarrow> Undefined
      | Returns r w1 \<Rightarrow>
          if r = 0 then Goto_err w1
          else if ctx_id w1 = None \<and> label w1 = None \<and> \<not> store then Goto_err w1
          else Next w1)"
proof -
  have a: "strncmp (''pkcs11:'' @ rest) ''pkcs11:'' 7 = 0"
    unfolding strncmp_def c_str_scheme by (simp add: c_str_def strlen_def NUL_def)
  have b: "pkcs11_parse_items env w (drop 7 (c_str (''pkcs11:'' @ rest))) store
           = pkcs11_parse_items env w rest store"
    unfolding c_str_scheme by (simp add: pkcs11_parse_items_def c_str_idem)
  show ?thesis unfolding parse_path_def using a b by simp
qed

lemma parse_pin_cases:
  "parse_pin env w store =
     (if pin w = None \<and> (\<not> store \<or> (\<exists>t. type w = Some t \<and> take 7 (c_str t) = ''private''))
      then (case ui_pin env of
              None \<Rightarrow> Returns 0 (call E_prompt w)
            | Some p \<Rightarrow> Returns 1 ((call E_prompt w)\<lparr>pin := Some p, pinlen := strlen p\<rparr>))
      else Returns 1 w)"
proof -
  have "c_str ''private'' = ''private''" by (simp add: c_str_def strlen_def NUL_def)
  then show ?thesis
    by (auto simp: parse_pin_def pkcs11_get_console_pin_def strncmp_def split: option.splits)
qed


lemma example_undecodable_object:
  "pkcs11_parse sample_env pkcs11_ctx_new (Some ''pkcs11:object=%G1;id=01'') False =
     Returns 1 (pkcs11_ctx_new\<lparr>module_path := Some ''/usr/lib/softhsm.so'', pin := Some ''0000'',
                  pinlen := 4, ctx_id := Some ''01'', idlen := 2, trace := [E_prompt]\<rparr>)"
  by code_simp

lemma example_undecodable_id:
  "pkcs11_parse sample_env pkcs11_ctx_new (Some ''pkcs11:id=%G1'') False = Undefined_behaviour"
  by code_simp

lemma example_urldecode:
  "urldecode ''%G1'' = None \<and> urldecode ''My%20Key'' = Some ''My Key''"
  by code_simp

lemma example_type_prefix:
  "pkcs11_parse sample_env pkcs11_ctx_new (Some ''pkcs11:type=privatex'') True =
     Returns 1 (pkcs11_ctx_new\<lparr>module_path := Some ''/usr/lib/softhsm.so'', pin := Some ''0000'',
                  pinlen := 4, type := Some ''privatex'', trace := [E_prompt]\<rparr>)"
  by code_simp

lemma example_empty_id:
  "pkcs11_parse sample_env pkcs11_ctx_new (Some ''pkcs11:id='') False =
     Returns 1 (pkcs11_ctx_new\<lparr>module_path := Some ''/usr/lib/softhsm.so'', pin := Some ''0000'',
                  pinlen := 4, ctx_id := Some [], idlen := 0, trace := [E_prompt]\<rparr>)"
  by code_simp

lemma example_no_selector:
  "pkcs11_parse_items sample_env pkcs11_ctx_new ''type=cert'' False =
     Returns 1 (pkcs11_ctx_new\<lparr>type := Some ''cert''\<rparr>)
   \<and> pkcs11_parse_items sample_env pkcs11_ctx_new ''type=cert'' True =
     Returns 1 (pkcs11_ctx_new\<lparr>type := Some ''cert''\<rparr>)
   \<and> pkcs11_parse sample_env pkcs11_ctx_new (Some (''pkcs11:'' @ ''type=cert'')) False =
     Returns 0 (pkcs11_ctx_new\<lparr>type := Some ''cert''\<rparr>)
   \<and> pkcs11_parse sample_env pkcs11_ctx_new (Some (''pkcs11:'' @ ''type=cert'')) True =
     Returns 1 (pkcs11_ctx_new\<lparr>module_path := Some ''/usr/lib/softhsm.so'', type := Some ''cert''\<rparr>)"
  by code_simp

lemma example_bare:
  "strncmp ''deadbeef'' ''pkcs11:'' 7 \<noteq> 0 \<and> urldecode ''deadbeef'' = Some ''deadbeef''
   \<and> pkcs11_parse sample_env pkcs11_ctx_new (Some ''deadbeef'') False =
     Returns 1 (pkcs11_ctx_new\<lparr>module_path := Some ''/usr/lib/softhsm.so'', pin := Some ''0000'',
                  pinlen := 4, ctx_id := Some ''deadbeef'', idlen := 8, trace := [E_prompt]\<rparr>)"
  by code_simp

lemma example_public_listing:
  "pkcs11_parse_items sample_env pkcs11_ctx_new ''type=public'' True =
     Returns 1 (pkcs11_ctx_new\<lparr>type := Some ''public''\<rparr>)
   \<and> pkcs11_parse sample_env pkcs11_ctx_new (Some (''pkcs11:'' @ ''type=public'')) True =
     Returns 1 (pkcs11_ctx_new\<lparr>module_path := Some ''/usr/lib/softhsm.so'', type := Some ''public''\<rparr>)"
  by code_simp

lemma example_private_listing:
  "pkcs11_parse_items sample_env pkcs11_ctx_new ''type=private'' True =
     Returns 1 (pkcs11_ctx_new\<lparr>type := Some ''private''\<rparr>)
   \<and> pkcs11_parse sample_env pkcs11_ctx_new (Some (''pkcs11:'' @ ''type=private'')) True =
     Returns 1 (pkcs11_ctx_new\<lparr>module_path := Some ''/usr/lib/softhsm.so'', pin := Some ''0000'',
                  pinlen := 4, type := Some ''private'', trace := [E_prompt]\<rparr>)"
  by code_simp

text \<open>
  Claim C5 (as amended). Take a parse that reaches the PIN step (the URI items are
  parsed, the selector check is passed and a module path is found; or the bare
  identifier is decoded and a module path is found) with no secret set. A prompt is
  issued exactly when the context is direct-key, or the context is listing and the
  type criterion begins with \<^verbatim>\<open>private\<close> (the comparison covers 7 characters). In a
  listing context with any other type, or none, no prompt is issued and the parse
  succeeds. A prompt that yields nothing makes the parse return 0.
\<close>

theorem prompt_condition:
  "(pkcs11_parse_items env w rest store = Returns 1 w1
      \<and> (store \<or> ctx_id w1 \<noteq> None \<or> label w1 \<noteq> None)
      \<and> (module_path w1 \<noteq> None \<or> getenv_PKCS11_MODULE_PATH env \<noteq> None)
      \<and> pin w1 = None \<longrightarrow>
    pkcs11_parse env w (Some (''pkcs11:'' @ rest)) store =
      (let w2 = (if module_path w1 = None
                 then w1\<lparr>module_path := getenv_PKCS11_MODULE_PATH env\<rparr> else w1)
       in if \<not> store \<or> (\<exists>t. type w1 = Some t \<and> take 7 (c_str t) = ''private'')
          then (case ui_pin env of
                  None \<Rightarrow> Returns 0 (call E_prompt w2)
                | Some p \<Rightarrow> Returns 1 ((call E_prompt w2)\<lparr>pin := Some p, pinlen := strlen p\<rparr>))
          else Returns 1 w2))
   \<and> (strncmp path ''pkcs11:'' 7 \<noteq> 0 \<and> urldecode path = Some d
      \<and> (module_path w \<noteq> None \<or> getenv_PKCS11_MODULE_PATH env \<noteq> None)
      \<and> pin w = None \<longrightarrow>
    pkcs11_parse env w (Some path) store =
      (let w1 = w\<lparr>ctx_id := Some d, idlen := strlen d\<rparr>;
           w2 = (if module_path w1 = None
                 then w1\<lparr>module_path := getenv_PKCS11_MODULE_PATH env\<rparr> else w1)
       in if \<not> store \<or> (\<exists>t. type w = Some t \<and> take 7 (c_str t) = ''private'')
          then (case ui_pin env of
                  None \<Rightarrow> Returns 0 (call E_prompt w2)
                | Some p \<Rightarrow> Returns 1 ((call E_prompt w2)\<lparr>pin := Some p, pinlen := strlen p\<rparr>))
          else Returns 1 w2))"
proof (intro conjI impI)
  assume "pkcs11_parse_items env w rest store = Returns 1 w1
      \<and> (store \<or> ctx_id w1 \<noteq> None \<or> label w1 \<noteq> None)
      \<and> (module_path w1 \<noteq> None \<or> getenv_PKCS11_MODULE_PATH env \<noteq> None)
      \<and> pin w1 = None"
  then show "pkcs11_parse env w (Some (''pkcs11:'' @ rest)) store =
      (let w2 = (if module_path w1 = None
                 then w1\<lparr>module_path := getenv_PKCS11_MODULE_PATH env\<rparr> else w1)
       in if \<not> store \<or> (\<exists>t. type w1 = Some t \<and> take 7 (c_str t) = ''private'')
          then (case ui_pin env of
                  None \<Rightarrow> Returns 0 (call E_prompt w2)
                | Some p \<Rightarrow> Returns 1 ((call E_prompt w2)\<lparr>pin := Some p, pinlen := strlen p\<rparr>))
          else Returns 1 w2)"
    by (auto simp: pkcs11_parse_def parse_path_uri parse_module_path_def parse_pin_cases Let_def
           simp del: append.simps split: option.splits)
next
  assume "strncmp path ''pkcs11:'' 7 \<noteq> 0 \<and> urldecode path = Some d
      \<and> (module_path w \<noteq> None \<or> getenv_PKCS11_MODULE_PATH env \<noteq> None)
      \<and> pin w = None"
  then show "pkcs11_parse env w (Some path) store =
      (let w1 = w\<lparr>ctx_id := Some d, idlen := strlen d\<rparr>;
           w2 = (if module_path w1 = None
                 then w1\<lparr>module_path := getenv_PKCS11_MODULE_PATH env\<rparr> else w1)
       in if \<not> store \<or> (\<exists>t. type w = Some t \<and> take 7 (c_str t) = ''private'')
          then (case ui_pin env of
                  None \<Rightarrow> Returns 0 (call E_prompt w2)
                | Some p \<Rightarrow> Returns 1 ((call E_prompt w2)\<lparr>pin := Some p, pinlen := strlen p\<rparr>))
          else Returns 1 w2)"
    by (auto simp: pkcs11_parse_def parse_path_def parse_module_path_def parse_pin_cases Let_def
           split: option.splits)
qed

theorem prompt_condition_witness:
  "pkcs11_parse_items sample_env pkcs11_ctx_new ''type=public'' True =
     Returns 1 (pkcs11_ctx_new\<lparr>type := Some ''public''\<rparr>)
   \<and> getenv_PKCS11_MODULE_PATH sample_env \<noteq> None
   \<and> pin (pkcs11_ctx_new\<lparr>type := Some ''public''\<rparr>) = None
   \<and> pkcs11_parse sample_env pkcs11_ctx_new (Some (''pkcs11:'' @ ''type=public'')) True =
     Returns 1 (pkcs11_ctx_new\<lparr>type := Some ''public'',
                  module_path := getenv_PKCS11_MODULE_PATH sample_env\<rparr>)
   \<and> strncmp ''deadbeef'' ''pkcs11:'' 7 \<noteq> 0 \<and> urldecode ''deadbeef'' = Some ''deadbeef''
   \<and> pkcs11_parse sample_env pkcs11_ctx_new (Some ''deadbeef'') False =
     Returns 1 (pkcs11_ctx_new\<lparr>module_path := Some ''/usr/lib/softhsm.so'', pin := Some ''0000'',
                  pinlen := 4, ctx_id := Some ''deadbeef'', idlen := 8, trace := [E_prompt]\<rparr>)"
proof -
  have a: "pkcs11_parse_items sample_env pkcs11_ctx_new ''type=public'' True =
             Returns 1 (pkcs11_ctx_new\<lparr>type := Some ''public''\<rparr>)"
    using example_public_listing by simp
  have b: "getenv_PKCS11_MODULE_PATH sample_env \<noteq> None"
    and c: "pin (pkcs11_ctx_new\<lparr>type := Some ''public''\<rparr>) = None"
    and m: "module_path (pkcs11_ctx_new\<lparr>type := Some ''public''\<rparr>) = None"
    by (simp_all add: sample_env_def pkcs11_ctx_new_def)
  have t: "\<not> (\<exists>t. type (pkcs11_ctx_new\<lparr>type := Some ''public''\<rparr>) = Some t
              \<and> take 7 (c_str t) = ''private'')"
    by (simp add: c_str_def strlen_def NUL_def)
  have "pkcs11_parse sample_env pkcs11_ctx_new (Some (''pkcs11:'' @ ''type=public'')) True =
     Returns 1 (pkcs11_ctx_new\<lparr>type := Some ''public'',
                  module_path := getenv_PKCS11_MODULE_PATH sample_env\<rparr>)"
    using prompt_condition [of sample_env pkcs11_ctx_new "''type=public''" True
        "pkcs11_ctx_new\<lparr>type := Some ''public''\<rparr>"] a b c m t
    by (simp del: append.simps)
  then show ?thesis using a b c example_bare by simp
qed

theorem prompt_type_private_counterexample:
  "pkcs11_parse sample_env pkcs11_ctx_new (Some ''pkcs11:type=privatex'') True =
     Returns 1 (pkcs11_ctx_new\<lparr>module_path := Some ''/usr/lib/softhsm.so'', pin := Some ''0000'',
                  pinlen := 4, type := Some ''privatex'', trace := [E_prompt]\<rparr>)"
  by (rule example_type_prefix)

text \<open>
  Claim C6 (as amended). For a \<^verbatim>\<open>pkcs11:\<close> URI parsed in direct-key context after
  which both id and label are unset (\<^verbatim>\<open>NULL\<close>), parsing fails; an attribute given
  with an empty value counts as set and passes the check. In listing context the
  check is skipped: with a module path and a secret available the parse succeeds
  whatever id and label are.
\<close>

theorem selector_check:
  "(pkcs11_parse_items env w rest False = Returns 1 w1 \<and> ctx_id w1 = None \<and> label w1 = None \<longrightarrow>
      pkcs11_parse env w (Some (''pkcs11:'' @ rest)) False = Returns 0 w1)
   \<and> (pkcs11_parse_items env w rest False = Returns 1 w1
        \<and> (ctx_id w1 \<noteq> None \<or> label w1 \<noteq> None)
        \<and> (module_path w1 \<noteq> None \<or> getenv_PKCS11_MODULE_PATH env \<noteq> None)
        \<and> (pin w1 \<noteq> None \<or> ui_pin env \<noteq> None) \<longrightarrow>
      (\<exists>w'. pkcs11_parse env w (Some (''pkcs11:'' @ rest)) False = Returns 1 w'))
   \<and> (pkcs11_parse_items env w rest True = Returns 1 w1
        \<and> (module_path w1 \<noteq> None \<or> getenv_PKCS11_MODULE_PATH env \<noteq> None)
        \<and> (pin w1 \<noteq> None \<or> ui_pin env \<noteq> None) \<longrightarrow>
      (\<exists>w'. pkcs11_parse env w (Some (''pkcs11:'' @ rest)) True = Returns 1 w'))"
  by (auto simp: pkcs11_parse_def parse_path_uri parse_module_path_def parse_pin_cases
           simp del: append.simps split: option.splits)

theorem selector_check_witness:
  "pkcs11_parse_items sample_env pkcs11_ctx_new ''type=cert'' False =
     Returns 1 (pkcs11_ctx_new\<lparr>type := Some ''cert''\<rparr>)
   \<and> ctx_id (pkcs11_ctx_new\<lparr>type := Some ''cert''\<rparr>) = None
   \<and> label (pkcs11_ctx_new\<lparr>type := Some ''cert''\<rparr>) = None
   \<and> pkcs11_parse sample_env pkcs11_ctx_new (Some (''pkcs11:'' @ ''type=cert'')) False =
     Returns 0 (pkcs11_ctx_new\<lparr>type := Some ''cert''\<rparr>)
   \<and> pkcs11_parse_items sample_env pkcs11_ctx_new ''type=cert'' True =
     Returns 1 (pkcs11_ctx_new\<lparr>type := Some ''cert''\<rparr>)
   \<and> pkcs11_parse sample_env pkcs11_ctx_new (Some (''pkcs11:'' @ ''type=cert'')) True =
     Returns 1 (pkcs11_ctx_new\<lparr>module_path := Some ''/usr/lib/softhsm.so'', type := Some ''cert''\<rparr>)"
proof -
  have a: "pkcs11_parse_items sample_env pkcs11_ctx_new ''type=cert'' False =
             Returns 1 (pkcs11_ctx_new\<lparr>type := Some ''cert''\<rparr>)"
    using example_no_selector by simp
  have b: "ctx_id (pkcs11_ctx_new\<lparr>type := Some ''cert''\<rparr>) = None
           \<and> label (pkcs11_ctx_new\<lparr>type := Some ''cert''\<rparr>) = None"
    by (simp add: pkcs11_ctx_new_def)
  have "pkcs11_parse sample_env pkcs11_ctx_new (Some (''pkcs11:'' @ ''type=cert'')) False =
          Returns 0 (pkcs11_ctx_new\<lparr>type := Some ''cert''\<rparr>)"
    using selector_check [of sample_env pkcs11_ctx_new "''type=cert''"
        "pkcs11_ctx_new\<lparr>type := Some ''cert''\<rparr>"] a b
    by blast
  then show ?thesis using a b example_no_selector by simp
qed

theorem selector_empty_id_counterexample:
  "pkcs11_parse sample_env pkcs11_ctx_new (Some ''pkcs11:id='') False =
     Returns 1 (pkcs11_ctx_new\<lparr>module_path := Some ''/usr/lib/softhsm.so'', pin := Some ''0000'',
                  pinlen := 4, ctx_id := Some [], idlen := 0, trace := [E_prompt]\<rparr>)"
  by (rule example_empty_id)






subsection \<open>Percent-decoding that fails\<close>

lemma urldecode_loop_bad_escape:
  assumes "\<not> (\<exists>h l r. rest = h # l # r \<and> isxdigit h \<and> isxdigit l)"
  shows "urldecode_loop (a @ CHR ''%'' # rest) = None"
proof (induction "length a" arbitrary: a rule: less_induct)
  case less
  show ?case
  proof (cases a)
    case Nil
    then show ?thesis using assms by (auto split: list.splits)
  next
    case (Cons c a1)
    show ?thesis
    proof (cases "c = CHR ''%''")
      case False
      then show ?thesis using Cons less [of a1] by simp
    next
      case True
      show ?thesis
      proof (cases a1)
        case Nil
        then show ?thesis using Cons True by (simp add: isxdigit_def split: list.splits)
      next
        case c2: (Cons h a2)
        show ?thesis
        proof (cases a2)
          case Nil
          then show ?thesis using Cons True c2 by (simp add: isxdigit_def)
        next
          case c3: (Cons l a3)
          then show ?thesis using Cons True c2 less [of a3] by simp
        qed
      qed
    qed
  qed
qed

lemma urldecode_bad_escape:
  assumes "NUL \<notin> set a" "NUL \<notin> set rest"
    and "\<not> (\<exists>h l r. rest = h # l # r \<and> isxdigit h \<and> isxdigit l)"
  shows "urldecode (a @ CHR ''%'' # rest) = None"
proof -
  have "NUL \<notin> set (a @ CHR ''%'' # rest)" using assms(1,2) by (simp add: NUL_def)
  then show ?thesis
    using urldecode_loop_bad_escape [OF assms(3), of a] by (simp add: urldecode_def c_str_no_NUL)
qed

lemma undecodable_object_ignored:
  "NUL \<notin> set v \<Longrightarrow> label w = None \<Longrightarrow> urldecode v = None \<Longrightarrow>
   parse_item env w (''object='' @ v) = Next w"
  using parse_item_object [of v w env] by simp

lemma undecodable_id_undefined:
  "NUL \<notin> set v \<Longrightarrow> ctx_id w = None \<Longrightarrow> urldecode v = None \<Longrightarrow>
   parse_item env w (''id='' @ v) = Undefined"
  using parse_item_id [of v w env] by simp

text \<open>
  Claim C3, evaluated on the code. \<^verbatim>\<open>urldecode\<close> fails on \<^verbatim>\<open>%G1\<close> (as on every value
  with a \<^verbatim>\<open>%\<close> that two hexadecimal digits do not follow), but its result is not
  checked: with \<^verbatim>\<open>object=%G1\<close> the label stays unset and the parse goes on to succeed,
  and with \<^verbatim>\<open>id=%G1\<close> the null result is handed to \<^verbatim>\<open>strlen\<close>.
\<close>

theorem decode_failure_not_checked:
  "urldecode ''%G1'' = None
   \<and> pkcs11_parse sample_env pkcs11_ctx_new (Some ''pkcs11:object=%G1;id=01'') False =
       Returns 1 (pkcs11_ctx_new\<lparr>module_path := Some ''/usr/lib/softhsm.so'', pin := Some ''0000'',
                    pinlen := 4, ctx_id := Some ''01'', idlen := 2, trace := [E_prompt]\<rparr>)
   \<and> pkcs11_parse sample_env pkcs11_ctx_new (Some ''pkcs11:id=%G1'') False = Undefined_behaviour"
  using example_urldecode example_undecodable_object example_undecodable_id by simp

subsection \<open>Client-certificate selection\<close>

lemma issuer_loop_iff:
  "issuer_loop ca_dn x i \<noteq> 0 \<longleftrightarrow> (\<exists>j. i \<le> j \<and> j < length ca_dn \<and> ca_dn ! j = issuer_name x)"
proof (induction ca_dn x i rule: issuer_loop.induct)
  case (1 ca_dn x i)
  show ?case
  proof (cases "i < length ca_dn")
    case False
    then show ?thesis by (subst issuer_loop.simps) auto
  next
    case True
    show ?thesis
    proof (cases "ca_dn ! i = issuer_name x")
      case True
      with \<open>i < length ca_dn\<close> show ?thesis
        by (subst issuer_loop.simps) (auto simp: X509_NAME_cmp_def)
    next
      case False
      have "issuer_loop ca_dn x i = issuer_loop ca_dn x (Suc i)"
        using True False by (subst issuer_loop.simps) (simp add: X509_NAME_cmp_def)
      also have "\<dots> \<noteq> 0 \<longleftrightarrow> (\<exists>j. Suc i \<le> j \<and> j < length ca_dn \<and> ca_dn ! j = issuer_name x)"
        using "1.IH" [OF True] False by (simp add: X509_NAME_cmp_def)
      also have "\<dots> \<longleftrightarrow> (\<exists>j. i \<le> j \<and> j < length ca_dn \<and> ca_dn ! j = issuer_name x)"
        using False by (metis Suc_leD Suc_leI le_neq_implies_less)
      finally show ?thesis .
    qed
  qed
qed

lemma cert_issuer_match_iff:
  "cert_issuer_match ca_dn x \<noteq> 0 \<longleftrightarrow> ca_dn = [] \<or> issuer_name x \<in> set ca_dn"
  by (auto simp: cert_issuer_match_def issuer_loop_iff in_set_conv_nth)

lemma ctx_of_call [simp]: "ctx_of (call e w) = ctx_of w"
  by (simp add: ctx_of_def call_def)

lemma ctx_of_trace [simp]: "ctx_of (w\<lparr>trace := t\<rparr>) = ctx_of w"
  by (simp add: ctx_of_def)

lemma client_cert_loop_skip:
  "\<forall>c\<in>set pre. \<not> (cert_issuer_match ca_dn (fst c) \<noteq> 0 \<and> check_purpose_ssl_client (fst c) \<noteq> 0) \<Longrightarrow>
   client_cert_loop env s ca_dn w (pre @ rest) =
   client_cert_loop env s ca_dn (w\<lparr>trace := trace w @ replicate (length pre) (E_search_next_cert s)\<rparr>) rest"
proof (induction pre arbitrary: w)
  case Nil
  then show ?case by simp
next
  case (Cons c pre)
  obtain cert cid where c: "c = (cert, cid)" by (cases c)
  have "client_cert_loop env s ca_dn w ((c # pre) @ rest) =
        client_cert_loop env s ca_dn (call (E_search_next_cert s) w) (pre @ rest)"
    using Cons.prems c by (auto simp: Let_def)
  also have "\<dots> = client_cert_loop env s ca_dn
       ((call (E_search_next_cert s) w)\<lparr>trace := trace (call (E_search_next_cert s) w)
            @ replicate (length pre) (E_search_next_cert s)\<rparr>) rest"
    using Cons.prems by (intro Cons.IH) simp
  also have "(call (E_search_next_cert s) w)\<lparr>trace := trace (call (E_search_next_cert s) w)
            @ replicate (length pre) (E_search_next_cert s)\<rparr>
         = w\<lparr>trace := trace w @ replicate (length (c # pre)) (E_search_next_cert s)\<rparr>"
    by (simp add: call_def replicate_app_Cons_same)
  finally show ?case .
qed

lemma load_ssl_client_cert_reaches_loop:
  assumes "pkcs11_initialize env (module_path w) = CKR_OK"
    and "pkcs11_get_slot env (ctx_of w) \<noteq> 0"
    and "pkcs11_start_session env (ctx_of w) = Some session"
    and "pin w \<noteq> None \<or> ui_pin env \<noteq> None"
    and "wp = (if pin w = None then w\<lparr>pin := ui_pin env, pinlen := strlen (the (ui_pin env))\<rparr> else w)"
    and "pkcs11_search_start env session (ctx_of (wp\<lparr>type := Some ''cert''\<rparr>)) \<noteq> 0"
  shows "pkcs11_load_ssl_client_cert env w ca_dn =
         client_cert_loop env session ca_dn
           (wp\<lparr>type := Some ''cert'',
               trace := trace w @ [E_initialize (module_path w), E_get_slot, E_start_session]
                        @ (if pin w = None then [E_prompt] else []) @ [E_search_start session]\<rparr>)
           (token_certs env)"
proof (cases "pin w = None")
  case True
  then obtain p where p: "ui_pin env = Some p" using assms(4) by auto
  have wp: "wp = w\<lparr>pin := Some p, pinlen := strlen p\<rparr>" using assms(5) True p by simp
  have s: "pkcs11_search_start env session (ctx_of (w\<lparr>pin := Some p, pinlen := strlen p, type := Some ''cert''\<rparr>)) \<noteq> 0"
    using assms(6) wp by simp
  show ?thesis
    using assms(1-3) True p s unfolding wp
    by (simp add: pkcs11_load_ssl_client_cert_def Let_def pkcs11_get_console_pin_def call_def
          ctx_of_def)
next
  case False
  then obtain q where q: "pin w = Some q" by auto
  have wp: "wp = w" using assms(5) False by simp
  show ?thesis
    using assms(1-3,6) unfolding wp
    by (simp add: q pkcs11_load_ssl_client_cert_def Let_def call_def ctx_of_def)
qed

text \<open>
  What the selection does. Once the module is initialized, the slot found, the
  session opened, a PIN at hand and the search started, it walks the enumerated
  certificates in order and accepts the first one such that the issuer list is empty
  or holds the certificate's issuer, and the purpose check for an SSL client answers
  anything but 0. On acceptance the context id becomes that certificate's id, the
  private key is searched with it, and no further certificate is fetched (one
  \<^verbatim>\<open>pkcs11_search_next_cert\<close> call for each skipped certificate and one for the
  accepted one). A certificate whose issuer is in no entry of a non-empty list is
  skipped, also when its purpose check passes. When none is acceptable, the result
  is 0 with no certificate.
\<close>

lemma client_cert_selection:
  assumes "pkcs11_initialize env (module_path w) = CKR_OK"
    and "pkcs11_get_slot env (ctx_of w) \<noteq> 0"
    and "pkcs11_start_session env (ctx_of w) = Some session"
    and "pin w \<noteq> None \<or> ui_pin env \<noteq> None"
    and "wp = (if pin w = None then w\<lparr>pin := ui_pin env, pinlen := strlen (the (ui_pin env))\<rparr> else w)"
    and "pkcs11_search_start env session (ctx_of (wp\<lparr>type := Some ''cert''\<rparr>)) \<noteq> 0"
    and "evs = [E_initialize (module_path w), E_get_slot, E_start_session]
               @ (if pin w = None then [E_prompt] else []) @ [E_search_start session]"
  shows
   "(token_certs env = pre @ (cert, cid) # post
       \<and> (\<forall>c\<in>set pre. \<not> ((ca_dn = [] \<or> issuer_name (fst c) \<in> set ca_dn)
                           \<and> check_purpose_ssl_client (fst c) \<noteq> 0))
       \<and> (ca_dn = [] \<or> issuer_name cert \<in> set ca_dn) \<and> check_purpose_ssl_client cert \<noteq> 0 \<longrightarrow>
     (let w3 = wp\<lparr>type := Some ''cert'', ctx_id := Some cid, idlen := length cid,
                    trace := trace w @ evs @ replicate (length pre + 1) (E_search_next_cert session)
                             @ [E_close_operation session, E_find_private_key session (Some cid)]\<rparr>;
          key = pkcs11_find_private_key env session (ctx_of w3)
      in pkcs11_load_ssl_client_cert env w ca_dn =
           (if key = 0 then Returns \<lparr>ret = 0, pcert = Some cert, pkey = None\<rparr> w3
            else Returns \<lparr>ret = 1, pcert = Some cert,
                          pkey = pkcs11_load_pkey env session (ctx_of w3) key\<rparr>
                   (call (E_load_pkey session key) w3))))
    \<and> ((\<forall>c\<in>set (token_certs env). \<not> ((ca_dn = [] \<or> issuer_name (fst c) \<in> set ca_dn)
                                       \<and> check_purpose_ssl_client (fst c) \<noteq> 0)) \<longrightarrow>
        pkcs11_load_ssl_client_cert env w ca_dn =
          Returns \<lparr>ret = 0, pcert = None, pkey = None\<rparr>
            (wp\<lparr>type := Some ''cert'',
                trace := trace w @ evs
                         @ replicate (length (token_certs env) + 1) (E_search_next_cert session)\<rparr>))"
proof (intro conjI impI)
  note loop = load_ssl_client_cert_reaches_loop [OF assms(1-6), of ca_dn, folded assms(7)]
  assume h: "token_certs env = pre @ (cert, cid) # post
       \<and> (\<forall>c\<in>set pre. \<not> ((ca_dn = [] \<or> issuer_name (fst c) \<in> set ca_dn)
                           \<and> check_purpose_ssl_client (fst c) \<noteq> 0))
       \<and> (ca_dn = [] \<or> issuer_name cert \<in> set ca_dn) \<and> check_purpose_ssl_client cert \<noteq> 0"
  then have skip: "\<forall>c\<in>set pre. \<not> (cert_issuer_match ca_dn (fst c) \<noteq> 0
                                   \<and> check_purpose_ssl_client (fst c) \<noteq> 0)"
    and acc: "cert_issuer_match ca_dn cert \<noteq> 0" "check_purpose_ssl_client cert \<noteq> 0"
    by (simp_all only: cert_issuer_match_iff) auto
  show "let w3 = wp\<lparr>type := Some ''cert'', ctx_id := Some cid, idlen := length cid,
                    trace := trace w @ evs @ replicate (length pre + 1) (E_search_next_cert session)
                             @ [E_close_operation session, E_find_private_key session (Some cid)]\<rparr>;
          key = pkcs11_find_private_key env session (ctx_of w3)
      in pkcs11_load_ssl_client_cert env w ca_dn =
           (if key = 0 then Returns \<lparr>ret = 0, pcert = Some cert, pkey = None\<rparr> w3
            else Returns \<lparr>ret = 1, pcert = Some cert,
                          pkey = pkcs11_load_pkey env session (ctx_of w3) key\<rparr>
                   (call (E_load_pkey session key) w3))"
    unfolding loop using h acc
    by (simp add: client_cert_loop_skip [OF skip] Let_def call_def ctx_of_def
          replicate_append_same)
next
  note loop = load_ssl_client_cert_reaches_loop [OF assms(1-6), of ca_dn, folded assms(7)]
  assume "\<forall>c\<in>set (token_certs env). \<not> ((ca_dn = [] \<or> issuer_name (fst c) \<in> set ca_dn)
                                       \<and> check_purpose_ssl_client (fst c) \<noteq> 0)"
  then have skip: "\<forall>c\<in>set (token_certs env). \<not> (cert_issuer_match ca_dn (fst c) \<noteq> 0
                                   \<and> check_purpose_ssl_client (fst c) \<noteq> 0)"
    by (simp only: cert_issuer_match_iff)
  show "pkcs11_load_ssl_client_cert env w ca_dn =
          Returns \<lparr>ret = 0, pcert = None, pkey = None\<rparr>
            (wp\<lparr>type := Some ''cert'',
                trace := trace w @ evs
                         @ replicate (length (token_certs env) + 1) (E_search_next_cert session)\<rparr>)"
    unfolding loop
    using client_cert_loop_skip [OF skip, of env session _ "[]"]
    by (simp add: call_def replicate_append_same)
qed

lemma client_cert_selection_example:
  "pkcs11_initialize (sample_env\<lparr>token_certs := sample_certs\<rparr>) (module_path sample_ctx) = CKR_OK
   \<and> pkcs11_get_slot (sample_env\<lparr>token_certs := sample_certs\<rparr>) (ctx_of sample_ctx) = 1
   \<and> pkcs11_start_session (sample_env\<lparr>token_certs := sample_certs\<rparr>) (ctx_of sample_ctx) = Some 7
   \<and> pin sample_ctx = Some ''1234''
   \<and> pkcs11_search_start (sample_env\<lparr>token_certs := sample_certs\<rparr>) 7
        (ctx_of (sample_ctx\<lparr>type := Some ''cert''\<rparr>)) = 1
   \<and> token_certs (sample_env\<lparr>token_certs := sample_certs\<rparr>) =
        [(\<lparr>issuer_name = ''CN=Other CA'', check_purpose_ssl_client = 1\<rparr>, ''01''),
         (\<lparr>issuer_name = ''CN=Site CA'', check_purpose_ssl_client = 0\<rparr>, ''02'')]
        @ (\<lparr>issuer_name = ''CN=Site CA'', check_purpose_ssl_client = 1\<rparr>, ''03'')
        # [(\<lparr>issuer_name = ''CN=Site CA'', check_purpose_ssl_client = 1\<rparr>, ''04'')]
   \<and> pkcs11_load_ssl_client_cert (sample_env\<lparr>token_certs := sample_certs\<rparr>) sample_ctx
        [''CN=Root CA'', ''CN=Site CA''] =
      Returns \<lparr>ret = 1, pcert = Some \<lparr>issuer_name = ''CN=Site CA'', check_purpose_ssl_client = 1\<rparr>,
               pkey = Some 5\<rparr>
        (sample_ctx\<lparr>type := Some ''cert'', ctx_id := Some ''03'', idlen := 2,
           trace := [E_initialize (Some ''/usr/lib/softhsm.so''), E_get_slot, E_start_session,
                     E_search_start 7, E_search_next_cert 7, E_search_next_cert 7,
                     E_search_next_cert 7, E_close_operation 7,
                     E_find_private_key 7 (Some ''03''), E_load_pkey 7 5]\<rparr>)"
proof -
  let ?env = "sample_env\<lparr>token_certs := sample_certs\<rparr>"
  let ?pre = "[(\<lparr>issuer_name = ''CN=Other CA'', check_purpose_ssl_client = 1\<rparr>, ''01''),
               (\<lparr>issuer_name = ''CN=Site CA'', check_purpose_ssl_client = 0\<rparr>, ''02'')]"
  let ?cert = "\<lparr>issuer_name = ''CN=Site CA'', check_purpose_ssl_client = 1\<rparr>"
  let ?post = "[(\<lparr>issuer_name = ''CN=Site CA'', check_purpose_ssl_client = 1\<rparr>, ''04'')]"
  let ?ca = "[''CN=Root CA'', ''CN=Site CA'']"
  let ?evs = "[E_initialize (Some ''/usr/lib/softhsm.so''), E_get_slot, E_start_session,
               E_search_start 7]"
  have h1: "pkcs11_initialize ?env (module_path sample_ctx) = CKR_OK"
    and h2: "pkcs11_get_slot ?env (ctx_of sample_ctx) = 1"
    and h3: "pkcs11_start_session ?env (ctx_of sample_ctx) = Some 7"
    and h4: "pin sample_ctx = Some ''1234''"
    and h6: "pkcs11_search_start ?env 7 (ctx_of (sample_ctx\<lparr>type := Some ''cert''\<rparr>)) = 1"
    and mp: "module_path sample_ctx = Some ''/usr/lib/softhsm.so''"
    and tr: "trace sample_ctx = []"
    by (simp_all add: sample_env_def sample_ctx_def pkcs11_ctx_new_def CKR_OK_def)
  have h5: "sample_ctx = (if pin sample_ctx = None
              then sample_ctx\<lparr>pin := ui_pin ?env, pinlen := strlen (the (ui_pin ?env))\<rparr>
              else sample_ctx)"
    using h4 by simp
  have h7: "?evs = [E_initialize (module_path sample_ctx), E_get_slot, E_start_session]
               @ (if pin sample_ctx = None then [E_prompt] else []) @ [E_search_start 7]"
    using h4 mp by simp
  have certs: "token_certs ?env = ?pre @ (?cert, ''03'') # ?post"
    by (simp add: sample_certs_def)
  have hyp: "token_certs ?env = ?pre @ (?cert, ''03'') # ?post
       \<and> (\<forall>c\<in>set ?pre. \<not> ((?ca = [] \<or> issuer_name (fst c) \<in> set ?ca)
                           \<and> check_purpose_ssl_client (fst c) \<noteq> 0))
       \<and> (?ca = [] \<or> issuer_name ?cert \<in> set ?ca) \<and> check_purpose_ssl_client ?cert \<noteq> 0"
    using certs by simp
  note t = client_cert_selection [of ?env sample_ctx 7 sample_ctx ?evs ?pre ?cert "''03''" ?post ?ca,
      OF h1 _ h3 _ h5 _ h7]
  have "pkcs11_load_ssl_client_cert ?env sample_ctx ?ca =
      Returns \<lparr>ret = 1, pcert = Some ?cert, pkey = Some 5\<rparr>
        (sample_ctx\<lparr>type := Some ''cert'', ctx_id := Some ''03'', idlen := 2,
           trace := [E_initialize (Some ''/usr/lib/softhsm.so''), E_get_slot, E_start_session,
                     E_search_start 7, E_search_next_cert 7, E_search_next_cert 7,
                     E_search_next_cert 7, E_close_operation 7,
                     E_find_private_key 7 (Some ''03''), E_load_pkey 7 5]\<rparr>)"
    using t h2 h4 h6 hyp
    by (simp add: Let_def tr call_def sample_env_def)
  then show ?thesis using h1 h2 h3 h4 h6 certs by simp
qed

lemma example_purpose_error:
  "pkcs11_load_ssl_client_cert
     (sample_env\<lparr>token_certs :=
        [(\<lparr>issuer_name = ''CN=Site CA'', check_purpose_ssl_client = - 1\<rparr>, ''01''),
         (\<lparr>issuer_name = ''CN=Site CA'', check_purpose_ssl_client = 1\<rparr>, ''02'')]\<rparr>)
     sample_ctx [] =
   Returns \<lparr>ret = 1, pcert = Some \<lparr>issuer_name = ''CN=Site CA'', check_purpose_ssl_client = - 1\<rparr>,
            pkey = Some 5\<rparr>
     (sample_ctx\<lparr>type := Some ''cert'', ctx_id := Some ''01'', idlen := 2,
        trace := [E_initialize (Some ''/usr/lib/softhsm.so''), E_get_slot, E_start_session,
                  E_search_start 7, E_search_next_cert 7, E_close_operation 7,
                  E_find_private_key 7 (Some ''01''), E_load_pkey 7 5]\<rparr>)"
  by code_simp

lemma example_purpose_refused:
  "pkcs11_load_ssl_client_cert
     (sample_env\<lparr>token_certs :=
        [(\<lparr>issuer_name = ''CN=Site CA'', check_purpose_ssl_client = 0\<rparr>, ''01''),
         (\<lparr>issuer_name = ''CN=Site CA'', check_purpose_ssl_client = 1\<rparr>, ''02'')]\<rparr>)
     sample_ctx [] =
   Returns \<lparr>ret = 1, pcert = Some \<lparr>issuer_name = ''CN=Site CA'', check_purpose_ssl_client = 1\<rparr>,
            pkey = Some 5\<rparr>
     (sample_ctx\<lparr>type := Some ''cert'', ctx_id := Some ''02'', idlen := 2,
        trace := [E_initialize (Some ''/usr/lib/softhsm.so''), E_get_slot, E_start_session,
                  E_search_start 7, E_search_next_cert 7, E_search_next_cert 7,
                  E_close_operation 7, E_find_private_key 7 (Some ''02''), E_load_pkey 7 5]\<rparr>)"
  by code_simp

text \<open>
  Claim C8, evaluated on the code. The loop takes the answer of
  \<^verbatim>\<open>X509_check_purpose\<close> as a truth value. A certificate on which the purpose check
  fails with -1 is therefore accepted as the first enumerated certificate: its id
  goes into the context, its private key is looked up and the certificate after it,
  whose usage does permit client authentication, is never fetched. With the answer
  0 in the same place the first certificate is skipped and the second one selected.
\<close>

theorem purpose_error_accepted:
  "pkcs11_load_ssl_client_cert
     (sample_env\<lparr>token_certs :=
        [(\<lparr>issuer_name = ''CN=Site CA'', check_purpose_ssl_client = - 1\<rparr>, ''01''),
         (\<lparr>issuer_name = ''CN=Site CA'', check_purpose_ssl_client = 1\<rparr>, ''02'')]\<rparr>)
     sample_ctx [] =
   Returns \<lparr>ret = 1, pcert = Some \<lparr>issuer_name = ''CN=Site CA'', check_purpose_ssl_client = - 1\<rparr>,
            pkey = Some 5\<rparr>
     (sample_ctx\<lparr>type := Some ''cert'', ctx_id := Some ''01'', idlen := 2,
        trace := [E_initialize (Some ''/usr/lib/softhsm.so''), E_get_slot, E_start_session,
                  E_search_start 7, E_search_next_cert 7, E_close_operation 7,
                  E_find_private_key 7 (Some ''01''), E_load_pkey 7 5]\<rparr>)
   \<and> pkcs11_load_ssl_client_cert
     (sample_env\<lparr>token_certs :=
        [(\<lparr>issuer_name = ''CN=Site CA'', check_purpose_ssl_client = 0\<rparr>, ''01''),
         (\<lparr>issuer_name = ''CN=Site CA'', check_purpose_ssl_client = 1\<rparr>, ''02'')]\<rparr>)
     sample_ctx [] =
   Returns \<lparr>ret = 1, pcert = Some \<lparr>issuer_name = ''CN=Site CA'', check_purpose_ssl_client = 1\<rparr>,
            pkey = Some 5\<rparr>
     (sample_ctx\<lparr>type := Some ''cert'', ctx_id := Some ''02'', idlen := 2,
        trace := [E_initialize (Some ''/usr/lib/softhsm.so''), E_get_slot, E_start_session,
                  E_search_start 7, E_search_next_cert 7, E_search_next_cert 7,
                  E_close_operation 7, E_find_private_key 7 (Some ''02''), E_load_pkey 7 5]\<rparr>)"
  using example_purpose_error example_purpose_refused by simp

subsection \<open>Sessions\<close>

lemma example_client_cert_wildcard:
  "pkcs11_load_ssl_client_cert (sample_env\<lparr>token_certs := sample_certs\<rparr>) sample_ctx [] =
   Returns \<lparr>ret = 1, pcert = Some \<lparr>issuer_name = ''CN=Other CA'', check_purpose_ssl_client = 1\<rparr>,
            pkey = Some 5\<rparr>
     (sample_ctx\<lparr>type := Some ''cert'', ctx_id := Some ''01'', idlen := 2,
        trace := [E_initialize (Some ''/usr/lib/softhsm.so''), E_get_slot, E_start_session,
                  E_search_start 7, E_search_next_cert 7, E_close_operation 7,
                  E_find_private_key 7 (Some ''01''), E_load_pkey 7 5]\<rparr>)"
  by code_simp

lemma example_private_key_login_fails:
  "pkcs11_engine_load_private_key sample_env (pkcs11_ctx_new\<lparr>pin := Some ''1234'', pinlen := 4\<rparr>)
     (Some ''pkcs11:id=01'') =
   Returns None
     (sample_ctx\<lparr>ctx_id := Some ''01'', idlen := 2,
        trace := [E_initialize (Some ''/usr/lib/softhsm.so''), E_get_slot, E_start_session,
                  E_login 7]\<rparr>)"
  by code_simp

lemma example_public_key_login_fails:
  "pkcs11_engine_load_public_key sample_env (pkcs11_ctx_new\<lparr>pin := Some ''1234'', pinlen := 4\<rparr>)
     (Some ''pkcs11:id=01'') =
   Returns None
     (sample_ctx\<lparr>ctx_id := Some ''01'', idlen := 2,
        trace := [E_initialize (Some ''/usr/lib/softhsm.so''), E_get_slot, E_start_session,
                  E_login 7]\<rparr>)"
  by code_simp

lemma example_private_key_loaded:
  "pkcs11_engine_load_private_key (sample_env\<lparr>pkcs11_login := (\<lambda>_ _. 1)\<rparr>)
     (pkcs11_ctx_new\<lparr>pin := Some ''1234'', pinlen := 4\<rparr>) (Some ''pkcs11:id=01'') =
   Returns (Some 5)
     (sample_ctx\<lparr>ctx_id := Some ''01'', idlen := 2,
        trace := [E_initialize (Some ''/usr/lib/softhsm.so''), E_get_slot, E_start_session,
                  E_login 7, E_find_private_key 7 (Some ''01''), E_load_pkey 7 5]\<rparr>)"
  by code_simp

lemma example_load_cert_ends_session:
  "pkcs11_engine_load_cert sample_env (pkcs11_ctx_new\<lparr>pin := Some ''1234'', pinlen := 4\<rparr>)
     (Some ''pkcs11:id=01'') =
   Returns (0, None)
     (sample_ctx\<lparr>ctx_id := Some ''01'', idlen := 2, type := Some ''cert'',
        trace := [E_initialize (Some ''/usr/lib/softhsm.so''), E_get_slot, E_start_session,
                  E_search_start 7, E_search_next_object 7, E_end_session 7, E_finalize]\<rparr>)"
  by code_simp

lemma parse_item_no_end_session:
  assumes "parse_item env w p = r" and "\<forall>h. E_end_session h \<notin> set (trace w)"
  shows "case r of
           Undefined \<Rightarrow> True
         | Next w' \<Rightarrow> (\<forall>h. E_end_session h \<notin> set (trace w'))
         | Goto_err w' \<Rightarrow> (\<forall>h. E_end_session h \<notin> set (trace w'))"
  using if_chain12 [OF assms(1) [unfolded parse_item_def]] assms(2)
  by (elim disjE conjE) (simp_all add: Let_def call_def split: option.splits)

lemma pkcs11_parse_items_no_end_session:
  assumes "\<forall>h. E_end_session h \<notin> set (trace w)"
    and "pkcs11_parse_items env w uri store = Returns r w'"
  shows "\<forall>h. E_end_session h \<notin> set (trace w')"
proof (rule parse_scan_invariant [where P = "\<lambda>x. \<forall>h. E_end_session h \<notin> set (trace x)"])
  show "parse_scan env w [] (c_str uri) = Returns r w'"
    using assms(2) by (simp add: pkcs11_parse_items_def)
  show "\<forall>h. E_end_session h \<notin> set (trace w)" by (rule assms(1))
next
  fix x p x'
  assume "\<forall>h. E_end_session h \<notin> set (trace x)" and "parse_item env x p = Next x'"
  then show "\<forall>h. E_end_session h \<notin> set (trace x')"
    using parse_item_no_end_session [of env x p "Next x'"] by simp
next
  fix x p x'
  assume "\<forall>h. E_end_session h \<notin> set (trace x)" and "parse_item env x p = Goto_err x'"
  then show "\<forall>h. E_end_session h \<notin> set (trace x')"
    using parse_item_no_end_session [of env x p "Goto_err x'"] by simp
qed

lemma pkcs11_parse_no_end_session:
  assumes "\<forall>h. E_end_session h \<notin> set (trace w)"
    and "pkcs11_parse env w path store = Returns r w'"
  shows "\<forall>h. E_end_session h \<notin> set (trace w')"
proof (cases path)
  case None
  with assms show ?thesis by (simp add: pkcs11_parse_def)
next
  case (Some p)
  show ?thesis
  proof (cases "parse_path env w p store")
    case (Next w1)
    have w1: "\<forall>h. E_end_session h \<notin> set (trace w1)"
      using Next assms(1) pkcs11_parse_items_no_end_session [OF assms(1)]
      by (auto simp: parse_path_def split: if_splits outcome.splits option.splits)
    show ?thesis
    proof (cases "parse_module_path env w1")
      case Undefined
      with assms(2) Some Next show ?thesis by (simp add: pkcs11_parse_def)
    next
      case (Goto_err w2)
      with assms(2) Some Next w1 show ?thesis
        by (auto simp: pkcs11_parse_def parse_module_path_def split: if_splits option.splits)
    next
      case (Next w2)
      then have w2: "\<forall>h. E_end_session h \<notin> set (trace w2)"
        using w1 by (auto simp: parse_module_path_def split: if_splits option.splits)
      have "parse_pin env w2 store = Returns r w'"
        using assms(2) Some \<open>parse_path env w p store = Next w1\<close> Next by (simp add: pkcs11_parse_def)
      then show ?thesis
        using w2 by (auto simp: parse_pin_cases call_def split: if_splits option.splits)
    qed
  next
    case (Goto_err w1)
    then have "\<forall>h. E_end_session h \<notin> set (trace w1)"
      using assms(1) pkcs11_parse_items_no_end_session [OF assms(1)]
      by (auto simp: parse_path_def split: if_splits outcome.splits option.splits)
    with assms(2) Some Goto_err show ?thesis by (simp add: pkcs11_parse_def)
  next
    case Undefined
    with assms(2) Some show ?thesis by (simp add: pkcs11_parse_def)
  qed
qed

lemma load_private_key_no_end_session:
  assumes "\<forall>h. E_end_session h \<notin> set (trace w)"
    and "pkcs11_engine_load_private_key env w path = Returns r w'"
  shows "\<forall>h. E_end_session h \<notin> set (trace w')"
proof (cases "pkcs11_parse env w path False")
  case Undefined_behaviour
  with assms(2) show ?thesis by (simp add: pkcs11_engine_load_private_key_def)
next
  case (Returns r1 w1)
  have "\<forall>h. E_end_session h \<notin> set (trace w1)"
    using pkcs11_parse_no_end_session [OF assms(1) Returns] .
  then show ?thesis
    using assms(2) Returns
    by (auto simp: pkcs11_engine_load_private_key_def Let_def call_def
             split: if_splits option.splits)
qed

lemma load_public_key_no_end_session:
  assumes "\<forall>h. E_end_session h \<notin> set (trace w)"
    and "pkcs11_engine_load_public_key env w path = Returns r w'"
  shows "\<forall>h. E_end_session h \<notin> set (trace w')"
proof (cases "pkcs11_parse env w path False")
  case Undefined_behaviour
  with assms(2) show ?thesis by (simp add: pkcs11_engine_load_public_key_def)
next
  case (Returns r1 w1)
  have "\<forall>h. E_end_session h \<notin> set (trace w1)"
    using pkcs11_parse_no_end_session [OF assms(1) Returns] .
  then show ?thesis
    using assms(2) Returns
    by (auto simp: pkcs11_engine_load_public_key_def Let_def call_def
             split: if_splits option.splits)
qed

lemma client_cert_loop_no_end_session:
  "\<forall>h. E_end_session h \<notin> set (trace w) \<Longrightarrow>
   client_cert_loop env s ca_dn w cs = Returns r w' \<Longrightarrow>
   \<forall>h. E_end_session h \<notin> set (trace w')"
proof (induction cs arbitrary: w)
  case Nil
  then show ?case by (auto simp: call_def)
next
  case (Cons c cs)
  obtain cert cid where c: "c = (cert, cid)" by (cases c)
  show ?case
  proof (cases "cert_issuer_match ca_dn cert \<noteq> 0 \<and> check_purpose_ssl_client cert \<noteq> 0")
    case True
    with Cons.prems c show ?thesis
      by (auto simp: Let_def call_def split: if_splits)
  next
    case False
    with Cons.prems c have "client_cert_loop env s ca_dn (call (E_search_next_cert s) w) cs = Returns r w'"
      by (auto simp: Let_def)
    moreover have "\<forall>h. E_end_session h \<notin> set (trace (call (E_search_next_cert s) w))"
      using Cons.prems(1) by (simp add: call_def)
    ultimately show ?thesis by (rule Cons.IH [rotated])
  qed
qed

lemma client_cert_loop_end_session_origin:
  "client_cert_loop env s ca_dn w cs = Returns r w' \<Longrightarrow> E_end_session h \<in> set (trace w') \<Longrightarrow>
   \<exists>h'. E_end_session h' \<in> set (trace w)"
  using client_cert_loop_no_end_session [of w env s ca_dn cs r w'] by blast

lemma load_ssl_client_cert_no_end_session:
  assumes "\<forall>h. E_end_session h \<notin> set (trace w)"
    and "pkcs11_load_ssl_client_cert env w ca_dn = Returns r w'"
  shows "\<forall>h. E_end_session h \<notin> set (trace w')"
proof (cases "pkcs11_initialize env (module_path w) \<noteq> CKR_OK \<or> pkcs11_get_slot env (ctx_of w) = 0")
  case True
  with assms show ?thesis
    by (auto simp: pkcs11_load_ssl_client_cert_def Let_def call_def split: if_splits)
next
  case ok: False
  show ?thesis
  proof (cases "pkcs11_start_session env (ctx_of w)")
    case None
    with assms ok show ?thesis
      by (auto simp: pkcs11_load_ssl_client_cert_def Let_def call_def)
  next
    case (Some session)
    show ?thesis
      using assms ok Some
      by (auto simp: pkcs11_load_ssl_client_cert_def Let_def call_def pkcs11_get_console_pin_def
               split: if_splits option.splits dest!: client_cert_loop_end_session_origin)
  qed
qed

text \<open>
  Claim C1, evaluated on the code. With a login that fails, loading a private key
  and loading a public key return \<^verbatim>\<open>NULL\<close> after \<^verbatim>\<open>pkcs11_start_session\<close> and
  \<^verbatim>\<open>pkcs11_login\<close>, and no call of \<^verbatim>\<open>pkcs11_end_session\<close> is made; nor is one made when
  the key is loaded or when a client certificate is selected.
  \<^verbatim>\<open>pkcs11_engine_load_cert\<close>, in the same file, does end its session. (The lemmas
  above show that the three operations make no such call on any path.)
\<close>

theorem session_never_ended:
  "pkcs11_engine_load_private_key sample_env (pkcs11_ctx_new\<lparr>pin := Some ''1234'', pinlen := 4\<rparr>)
     (Some ''pkcs11:id=01'') =
   Returns None
     (sample_ctx\<lparr>ctx_id := Some ''01'', idlen := 2,
        trace := [E_initialize (Some ''/usr/lib/softhsm.so''), E_get_slot, E_start_session,
                  E_login 7]\<rparr>)
   \<and> pkcs11_engine_load_public_key sample_env (pkcs11_ctx_new\<lparr>pin := Some ''1234'', pinlen := 4\<rparr>)
     (Some ''pkcs11:id=01'') =
   Returns None
     (sample_ctx\<lparr>ctx_id := Some ''01'', idlen := 2,
        trace := [E_initialize (Some ''/usr/lib/softhsm.so''), E_get_slot, E_start_session,
                  E_login 7]\<rparr>)
   \<and> pkcs11_engine_load_private_key (sample_env\<lparr>pkcs11_login := (\<lambda>_ _. 1)\<rparr>)
     (pkcs11_ctx_new\<lparr>pin := Some ''1234'', pinlen := 4\<rparr>) (Some ''pkcs11:id=01'') =
   Returns (Some 5)
     (sample_ctx\<lparr>ctx_id := Some ''01'', idlen := 2,
        trace := [E_initialize (Some ''/usr/lib/softhsm.so''), E_get_slot, E_start_session,
                  E_login 7, E_find_private_key 7 (Some ''01''), E_load_pkey 7 5]\<rparr>)
   \<and> pkcs11_load_ssl_client_cert (sample_env\<lparr>token_certs := sample_certs\<rparr>) sample_ctx [] =
   Returns \<lparr>ret = 1, pcert = Some \<lparr>issuer_name = ''CN=Other CA'', check_purpose_ssl_client = 1\<rparr>,
            pkey = Some 5\<rparr>
     (sample_ctx\<lparr>type := Some ''cert'', ctx_id := Some ''01'', idlen := 2,
        trace := [E_initialize (Some ''/usr/lib/softhsm.so''), E_get_slot, E_start_session,
                  E_search_start 7, E_search_next_cert 7, E_close_operation 7,
                  E_find_private_key 7 (Some ''01''), E_load_pkey 7 5]\<rparr>)
   \<and> pkcs11_engine_load_cert sample_env (pkcs11_ctx_new\<lparr>pin := Some ''1234'', pinlen := 4\<rparr>)
     (Some ''pkcs11:id=01'') =
   Returns (0, None)
     (sample_ctx\<lparr>ctx_id := Some ''01'', idlen := 2, type := Some ''cert'',
        trace := [E_initialize (Some ''/usr/lib/softhsm.so''), E_get_slot, E_start_session,
                  E_search_start 7, E_search_next_object 7, E_end_session 7, E_finalize]\<rparr>)"
  using example_private_key_login_fails example_public_key_login_fails example_private_key_loaded
    example_client_cert_wildcard example_load_cert_ends_session
  by simp

end
